theory Spec2Isabelle
  imports Complex_Main
begin

section \<open>Numbers, vectors and the three.js helpers\<close>

text \<open>
  The program is TypeScript on top of three.js. Its \<open>number\<close> values are modelled as
  HOL reals (exact arithmetic, no rounding), and every \<open>Math.random()\<close> draw is an explicit
  parameter of the function that draws it, with range \<open>[0, 1)\<close>.

  The helpers below are three.js library functions the sources call
  (\<open>MathUtils.lerp\<close>, \<open>MathUtils.clamp\<close>, \<open>MathUtils.smoothstep\<close>,
  \<open>MathUtils.randFloatSpread\<close>, \<open>Vector3.lerp\<close>); they are written as three.js
  defines them.
\<close>

record Vector3 =
  vx :: real
  vy :: real
  vz :: real

datatype TreeState = CHAOS | FORMED

text \<open>
  The one way the per-frame code can throw: a property read on \<open>undefined\<close>, which is
  what an array read past the end returns. A function that can throw returns
  \<open>JsError + state\<close>, with \<open>Inl\<close> the error.
\<close>

datatype JsError = TypeError

definition lerp :: "real \<Rightarrow> real \<Rightarrow> real \<Rightarrow> real" where
  \<comment> \<open>\<open>MathUtils.lerp(x, y, t) = (1 - t) * x + t * y\<close>\<close>
  "lerp x y t = (1 - t) * x + t * y"

definition clamp :: "real \<Rightarrow> real \<Rightarrow> real \<Rightarrow> real" where
  \<comment> \<open>\<open>MathUtils.clamp(value, min, max) = Math.max(min, Math.min(max, value))\<close>\<close>
  "clamp v lo hi = max lo (min hi v)"

definition smoothstep :: "real \<Rightarrow> real \<Rightarrow> real \<Rightarrow> real" where
  \<comment> \<open>\<open>MathUtils.smoothstep(x, min, max)\<close>\<close>
  "smoothstep x lo hi =
     (if x \<le> lo then 0
      else if x \<ge> hi then 1
      else (let x' = (x - lo) / (hi - lo) in x' * x' * (3 - 2 * x')))"

definition randFloatSpread :: "real \<Rightarrow> real \<Rightarrow> real" where
  \<comment> \<open>\<open>MathUtils.randFloatSpread(range) = range * (0.5 - Math.random())\<close>; the draw is \<open>rnd\<close>\<close>
  "randFloatSpread rnd rng = rng * (0.5 - rnd)"

definition Vector3_lerp :: "Vector3 \<Rightarrow> Vector3 \<Rightarrow> real \<Rightarrow> Vector3" where
  \<comment> \<open>\<open>this.x += (v.x - this.x) * alpha\<close>, and the same for y and z\<close>
  "Vector3_lerp this v alpha =
     \<lparr>vx = vx this + (vx v - vx this) * alpha,
      vy = vy this + (vy v - vy this) * alpha,
      vz = vz this + (vz v - vz this) * alpha\<rparr>"

definition sign :: "real \<Rightarrow> real" where
  \<comment> \<open>\<open>Math.sign\<close>\<close>
  "sign d = (if d > 0 then 1 else if d < 0 then -1 else 0)"

text \<open>
  A store into a \<open>Float32Array\<close> rounds the number to the nearest float32, ties to the
  even significand (\<open>Math.fround\<close>). A float32 has a 24-bit significand, so in the
  binade of exponent \<open>e\<close> its values are the multiples of \<open>2 powr (e - 23)\<close>; below the
  smallest normal exponent -126 the spacing stays that of -126 (subnormals). Magnitudes from
  \<open>2 powr 128\<close> on, which the store turns into Infinity, have no counterpart in the reals
  and are outside what \<open>fround\<close> describes.
\<close>

definition roundHalfEven :: "real \<Rightarrow> int" where
  "roundHalfEven z =
     (let f = \<lfloor>z\<rfloor>; d = z - of_int f
      in if d < 1 / 2 then f else if d > 1 / 2 then f + 1 else if even f then f else f + 1)"

definition float32_exponent :: "real \<Rightarrow> int" where
  "float32_exponent x = max \<lfloor>log 2 \<bar>x\<bar>\<rfloor> (- 126)"

definition fround :: "real \<Rightarrow> real" where
  "fround x =
     (if x = 0 then 0
      else let u = 2 powr (of_int (float32_exponent x) - 23)
           in sgn x * of_int (roundHalfEven (\<bar>x\<bar> / u)) * u)"

definition Vector3_length :: "Vector3 \<Rightarrow> real" where
  "Vector3_length v = sqrt (vx v * vx v + vy v * vy v + vz v * vz v)"

definition Vector3_multiplyScalar :: "Vector3 \<Rightarrow> real \<Rightarrow> Vector3" where
  "Vector3_multiplyScalar v k = \<lparr>vx = vx v * k, vy = vy v * k, vz = vz v * k\<rparr>"

definition Vector3_normalize :: "Vector3 \<Rightarrow> Vector3" where
  \<comment> \<open>\<open>this.divideScalar(this.length() || 1)\<close>\<close>
  "Vector3_normalize v =
     (let l = Vector3_length v; d = (if l = 0 then 1 else l)
      in Vector3_multiplyScalar v (1 / d))"

definition Vector3_add :: "Vector3 \<Rightarrow> Vector3 \<Rightarrow> Vector3" where
  "Vector3_add a b = \<lparr>vx = vx a + vx b, vy = vy a + vy b, vz = vz a + vz b\<rparr>"

section \<open>Spatial distribution library (src/utils.ts)\<close>

definition getRandomSpherePoint :: "real \<Rightarrow> real \<Rightarrow> real \<Rightarrow> real \<Rightarrow> Vector3" where
  \<comment> \<open>\<open>rndU\<close>, \<open>rndV\<close>, \<open>rndR\<close> are the three \<open>Math.random()\<close> draws, in source order\<close>
  "getRandomSpherePoint rndU rndV rndR radius =
     (let u = rndU;
          v = rndV;
          theta = 2 * pi * u;
          phi = arccos (2 * v - 1);
          r = root 3 rndR * radius;
          sinPhi = sin phi
      in \<lparr>vx = r * sinPhi * cos theta, vy = r * sinPhi * sin theta, vz = r * cos phi\<rparr>)"

definition getTreePoint :: "real \<Rightarrow> real \<Rightarrow> real \<Rightarrow> real \<Rightarrow> real \<Rightarrow> Vector3" where
  \<comment> \<open>\<open>rndTheta\<close> and \<open>rndNoise\<close> are the two \<open>Math.random()\<close> draws, in source order\<close>
  "getTreePoint rndTheta rndNoise height baseRadius yRatio =
     (let y = yRatio * height;
          r = baseRadius * (1 - yRatio);
          theta = rndTheta * pi * 2;
          rNoise = randFloatSpread rndNoise 0.5;
          finalR = max 0 (r + rNoise)
      in \<lparr>vx = finalR * cos theta, vy = y - height / 2, vz = finalR * sin theta\<rparr>)"

record SpiralPoint =
  position :: Vector3
  rotationY :: real

definition getSpiralPoint :: "real \<Rightarrow> real \<Rightarrow> real \<Rightarrow> real \<Rightarrow> SpiralPoint" where
  "getSpiralPoint index totalCount height radiusBase =
     (let yRatio = index / totalCount;
          y = (yRatio * height) - (height / 2);
          r = (radiusBase * (1 - yRatio)) + 1.5;
          loops = 4;
          theta = yRatio * pi * 2 * loops;
          x = r * cos theta;
          z = r * sin theta
      in \<lparr>position = \<lparr>vx = x, vy = y, vz = z\<rparr>, rotationY = - theta\<rparr>)"

definition horizontalRadius :: "Vector3 \<Rightarrow> real" where
  \<comment> \<open>distance of a point from the vertical (y) axis\<close>
  "horizontalRadius p = sqrt ((vx p)\<^sup>2 + (vz p)\<^sup>2)"


section \<open>Foliage particle field (src/components/Foliage.tsx)\<close>

text \<open>
  Only the per-frame callback carries state: the ref \<open>progressRef\<close> and the two shader
  uniforms. \<open>shaderRef\<close> records whether \<open>shaderRef.current\<close> is set; the callback
  returns at once when it is not.
\<close>

record Foliage =
  shaderRef :: bool
  progressRef :: real
  uProgress :: real
  uTime :: real

definition Foliage_init :: Foliage where
  "Foliage_init = \<lparr>shaderRef = True, progressRef = 0, uProgress = 0, uTime = 0\<rparr>"

definition Foliage_useFrame :: "TreeState \<Rightarrow> real \<Rightarrow> real \<Rightarrow> Foliage \<Rightarrow> Foliage" where
  "Foliage_useFrame treeState elapsedTime delta f =
     (if \<not> shaderRef f then f
      else
        let targetVal = (if treeState = FORMED then 1 else 0);
            p = lerp (progressRef f) targetVal (delta * 2.5)
        in f\<lparr>progressRef := p, uProgress := p, uTime := elapsedTime\<rparr>)"

text \<open>\<open>n\<close> frames at a constant \<open>delta\<close>; the clock reads \<open>k * delta\<close> in the k-th frame.\<close>

primrec Foliage_run :: "TreeState \<Rightarrow> real \<Rightarrow> nat \<Rightarrow> Foliage \<Rightarrow> Foliage" where
  "Foliage_run treeState delta 0 f = f"
| "Foliage_run treeState delta (Suc n) f =
     Foliage_useFrame treeState (real (Suc n) * delta) delta (Foliage_run treeState delta n f)"

section \<open>Star centerpiece (Star.tsx, src/unnamed/part_004)\<close>

text \<open>
  The per-frame callback writes the ref \<open>progress\<close>, the shared material and the group.
  The point light's \<open>intensity\<close> and the swarm's \<open>opacity\<close> are JSX props: they are
  computed from \<open>progress.current\<close> and \<open>material.opacity\<close> when the component function
  runs (a React render), not in the per-frame callback. \<open>Star_render\<close> is that render.
\<close>

record Star =
  star_groupRef :: bool
  star_progress :: real
  material_opacity :: real
  material_emissiveIntensity :: real
  group_visible :: bool
  group_scale :: real
  group_positionY :: real
  group_rotationY :: real
  pointLight_intensity :: real
  swarm_opacity :: real

definition Star_render :: "Star \<Rightarrow> Star" where
  "Star_render s =
     s\<lparr>pointLight_intensity := 2 * star_progress s, swarm_opacity := material_opacity s\<rparr>"

definition Star_init :: Star where
  \<comment> \<open>the refs and the material as created, then the first render\<close>
  "Star_init = Star_render
     \<lparr>star_groupRef = True, star_progress = 0, material_opacity = 0,
      material_emissiveIntensity = 2, group_visible = True, group_scale = 1,
      group_positionY = 8.2, group_rotationY = 0,
      pointLight_intensity = 0, swarm_opacity = 0\<rparr>"

definition Star_useFrame :: "TreeState \<Rightarrow> real \<Rightarrow> real \<Rightarrow> Star \<Rightarrow> Star" where
  "Star_useFrame treeState elapsedTime delta s =
     (if \<not> star_groupRef s then s
      else
        let speed = 1 / 1.5;
            target = (treeState = FORMED);
            targetVal = (if target then 1 else 0);
            diff = targetVal - star_progress s;
            progress' = (if \<bar>diff\<bar> > 0.0001
                         then clamp (star_progress s + sign diff * delta * speed) 0 1
                         else targetVal);
            p = smoothstep progress' 0 1;
            scale = 1.5 - (0.5 * p);
            t = elapsedTime
        in s\<lparr>star_progress := progress',
             material_opacity := p,
             material_emissiveIntensity := 2 * p,
             group_visible := (p > 0.01),
             group_scale := scale,
             group_positionY := 8.2 + (sin t * 0.05 * p),
             group_rotationY := t * 0.2\<rparr>)"

section \<open>Ornament instance batches (Ornaments.tsx, src/unnamed/part_000)\<close>

datatype OrnamentType = ball | box | light

record Euler =
  ex :: real
  ey :: real
  ez :: real

text \<open>
  \<open>Object3D\<close> keeps what the loop writes to \<open>tempObject\<close>: position, Euler rotation and
  the uniform scale of \<open>setScalar\<close>. \<open>updateMatrix\<close> composes the matrix from exactly
  these three; \<open>instanceMatrix\<close> records, per instance, the triple whose matrix was last
  handed to \<open>setMatrixAt\<close> (the sixteen matrix entries themselves are not expanded).
\<close>

record Object3D =
  obj_position :: Vector3
  obj_rotation :: Euler
  obj_scale :: real

record Ornaments =
  meshRef :: bool
  orn_type :: OrnamentType
  orn_count :: nat
  chaosData :: "Vector3 list"
  targetData :: "Vector3 list"
  speeds :: "real list"
  initialRotations :: "Euler list"
  currentPositions :: "Vector3 list"
  tempObject :: Object3D
  instanceMatrix :: "Object3D list"

text \<open>
  Generation. \<open>rnd\<close> is the stream of \<open>Math.random()\<close> draws; instance \<open>i\<close> consumes
  the ten draws \<open>10 * i\<close> ... \<open>10 * i + 9\<close> in source order: three for the chaos point,
  one for the height bias, two inside \<open>getTreePoint\<close>, one for the speed, three for the
  initial rotation.
\<close>

definition ornament_chaos :: "(nat \<Rightarrow> real) \<Rightarrow> nat \<Rightarrow> Vector3" where
  "ornament_chaos rnd i =
     getRandomSpherePoint (rnd (10 * i)) (rnd (10 * i + 1)) (rnd (10 * i + 2)) 20"

definition ornament_target :: "(nat \<Rightarrow> real) \<Rightarrow> OrnamentType \<Rightarrow> nat \<Rightarrow> Vector3" where
  "ornament_target rnd ty i =
     (let yBias = rnd (10 * i + 3) powr 1.8;
          tPos = getTreePoint (rnd (10 * i + 4)) (rnd (10 * i + 5)) 14 5 yBias;
          offset = (if ty = box then 0.5 else (if ty = ball then 0.3 else 0.6));
          direction = Vector3_normalize \<lparr>vx = vx tPos, vy = 0, vz = vz tPos\<rparr>
      in Vector3_add tPos (Vector3_multiplyScalar direction offset))"

definition ornament_speed :: "(nat \<Rightarrow> real) \<Rightarrow> nat \<Rightarrow> real" where
  "ornament_speed rnd i = 1 + rnd (10 * i + 6) * 2"

definition ornament_rotation :: "(nat \<Rightarrow> real) \<Rightarrow> nat \<Rightarrow> Euler" where
  "ornament_rotation rnd i =
     \<lparr>ex = rnd (10 * i + 7) * pi, ey = rnd (10 * i + 8) * pi, ez = rnd (10 * i + 9) * pi\<rparr>"

definition Object3D_identity :: Object3D where
  "Object3D_identity =
     \<lparr>obj_position = \<lparr>vx = 0, vy = 0, vz = 0\<rparr>,
      obj_rotation = \<lparr>ex = 0, ey = 0, ez = 0\<rparr>,
      obj_scale = 1\<rparr>"

definition Ornaments_init :: "(nat \<Rightarrow> real) \<Rightarrow> OrnamentType \<Rightarrow> nat \<Rightarrow> Ornaments" where
  "Ornaments_init rnd ty n =
     \<lparr>meshRef = True,
      orn_type = ty,
      orn_count = n,
      chaosData = map (ornament_chaos rnd) [0..<n],
      targetData = map (ornament_target rnd ty) [0..<n],
      speeds = map (ornament_speed rnd) [0..<n],
      initialRotations = map (ornament_rotation rnd) [0..<n],
      currentPositions = map (ornament_chaos rnd) [0..<n],
      tempObject = Object3D_identity,
      instanceMatrix = replicate n Object3D_identity\<rparr>"

text \<open>
  One iteration of the loop of the per-frame callback. \<open>targetData[i]\<close>,
  \<open>chaosData[i]\<close>, \<open>currentPositions[i]\<close> and \<open>initialRotations[i]\<close> are objects:
  past the end of the array they are \<open>undefined\<close>, and \<open>current.lerp(target, ...)\<close>
  or \<open>rotation.copy(...)\<close> then throws a TypeError. A missing \<open>speeds[i]\<close> would not
  throw but make the lerp factor NaN; the reals have no NaN, so the model fails there as
  well. \<open>setMatrixAt\<close> past the end writes nothing, as a list update does.
\<close>

definition Ornaments_body ::
    "TreeState \<Rightarrow> real \<Rightarrow> real \<Rightarrow> nat \<Rightarrow> Ornaments \<Rightarrow> JsError + Ornaments" where
  "Ornaments_body treeState elapsedTime delta i s =
     (let targetIsTree = (treeState = FORMED);
          targets = (if targetIsTree then targetData s else chaosData s)
      in if \<not> i < length targets \<or> \<not> i < length (currentPositions s) \<or> \<not> i < length (speeds s)
         then Inl TypeError
         else
           let target = targets ! i;
               current = currentPositions s ! i;
               speed = speeds s ! i;
               current' = Vector3_lerp current target (speed * delta)
           in if orn_type s = box \<and> \<not> i < length (initialRotations s)
              then Inl TypeError
              else
                let rotation = (if orn_type s = box then initialRotations s ! i
                                else \<lparr>ex = 0, ey = elapsedTime * 0.1 * speed, ez = 0\<rparr>);
                    scale = (if orn_type s = light
                             then 1 + sin (elapsedTime * 5 + real i) * 0.2 else 1);
                    temp = \<lparr>obj_position = current', obj_rotation = rotation, obj_scale = scale\<rparr>
                in Inr (s\<lparr>currentPositions := (currentPositions s)[i := current'],
                         tempObject := temp,
                         instanceMatrix := (instanceMatrix s)[i := temp]\<rparr>))"

function Ornaments_loop ::
    "TreeState \<Rightarrow> real \<Rightarrow> real \<Rightarrow> nat \<Rightarrow> Ornaments \<Rightarrow> JsError + Ornaments" where
  "Ornaments_loop treeState elapsedTime delta i s =
     (if i < orn_count s
      then (case Ornaments_body treeState elapsedTime delta i s of
              Inl e \<Rightarrow> Inl e
            | Inr s' \<Rightarrow> Ornaments_loop treeState elapsedTime delta (i + 1) s')
      else Inr s)"
  by pat_completeness auto
termination
  by (relation "measure (\<lambda>(treeState, elapsedTime, delta, i, s). orn_count s - i)")
     (auto simp: Ornaments_body_def Let_def split: if_splits)

declare Ornaments_loop.simps [simp del]

definition Ornaments_useFrame ::
    "TreeState \<Rightarrow> real \<Rightarrow> real \<Rightarrow> Ornaments \<Rightarrow> JsError + Ornaments" where
  "Ornaments_useFrame treeState elapsedTime delta s =
     (if \<not> meshRef s then Inr s else Ornaments_loop treeState elapsedTime delta 0 s)"

text \<open>
  Any number of frames, each with its own tree state, clock reading and delta; a frame that
  throws ends the run.
\<close>

fun Ornaments_frames ::
    "(TreeState \<times> real \<times> real) list \<Rightarrow> Ornaments \<Rightarrow> JsError + Ornaments" where
  "Ornaments_frames [] s = Inr s"
| "Ornaments_frames ((treeState, elapsedTime, delta) # fs) s =
     (case Ornaments_useFrame treeState elapsedTime delta s of
        Inl e \<Rightarrow> Inl e
      | Inr s' \<Rightarrow> Ornaments_frames fs s')"

section \<open>Chaotic swarm (Star.tsx, src/unnamed/part_004)\<close>

record SwarmParam =
  radius :: real
  speed :: real
  freqX :: real
  freqY :: real
  freqZ :: real
  offX :: real
  offY :: real
  offZ :: real

definition swarm_count :: nat where
  "swarm_count = 60"

text \<open>
  Particle \<open>i\<close> consumes the nine draws \<open>9 * i\<close> ... \<open>9 * i + 8\<close> of the stream in source
  order; the ninth picks the colour and is not part of the orbit parameters.
\<close>

definition swarm_param :: "(nat \<Rightarrow> real) \<Rightarrow> nat \<Rightarrow> SwarmParam" where
  "swarm_param rnd i =
     \<lparr>radius = 0.8 + rnd (9 * i) * 1.7,
      speed = 0.5 + rnd (9 * i + 1) * 1.0,
      freqX = 1 + rnd (9 * i + 2),
      freqY = 1 + rnd (9 * i + 3),
      freqZ = 1 + rnd (9 * i + 4),
      offX = rnd (9 * i + 5) * pi * 2,
      offY = rnd (9 * i + 6) * pi * 2,
      offZ = rnd (9 * i + 7) * pi * 2\<rparr>"

record ChaoticSwarm =
  pointsRef :: bool
  params :: "SwarmParam list"
  positions :: "real list"
  points_opacity :: real
  points_visible :: bool

definition ChaoticSwarm_init :: "(nat \<Rightarrow> real) \<Rightarrow> ChaoticSwarm" where
  "ChaoticSwarm_init rnd =
     \<lparr>pointsRef = True,
      params = map (swarm_param rnd) [0..<swarm_count],
      positions = replicate (swarm_count * 3) 0,
      points_opacity = 1,
      points_visible = True\<rparr>"

text \<open>
  The position loop. \<open>params[i]\<close> past the end of the array is \<open>undefined\<close> and
  \<open>p.speed\<close> then throws a TypeError. \<open>positions\<close> is the geometry's
  \<open>Float32Array\<close>: each product is rounded to float32 as it is stored, and a store past
  the end writes nothing.
\<close>

function ChaoticSwarm_loop ::
    "SwarmParam list \<Rightarrow> real \<Rightarrow> nat \<Rightarrow> real list \<Rightarrow> JsError + real list" where
  "ChaoticSwarm_loop par t i pos =
     (if i < swarm_count
      then
        (if \<not> i < length par then Inl TypeError
         else
           let p = par ! i;
               i3 = i * 3;
               time = t * speed p;
               pos1 = pos[i3 := fround (radius p * sin (time * freqX p + offX p))];
               pos2 = pos1[i3 + 1 := fround (radius p * sin (time * freqY p + offY p))];
               pos3 = pos2[i3 + 2 := fround (radius p * sin (time * freqZ p + offZ p))]
           in ChaoticSwarm_loop par t (i + 1) pos3)
      else Inr pos)"
  by pat_completeness auto
termination
  by (relation "measure (\<lambda>(par, t, i, pos). swarm_count - i)") auto

declare ChaoticSwarm_loop.simps [simp del]

definition ChaoticSwarm_useFrame :: "real \<Rightarrow> real \<Rightarrow> ChaoticSwarm \<Rightarrow> JsError + ChaoticSwarm" where
  \<comment> \<open>\<open>opacity\<close> is the prop, \<open>t\<close> is \<open>clock.getElapsedTime()\<close>\<close>
  "ChaoticSwarm_useFrame opacity t s =
     (if \<not> pointsRef s then Inr s
      else
        let s1 = s\<lparr>points_opacity := opacity, points_visible := (opacity > 0.01)\<rparr>
        in if opacity \<le> 0.01 then Inr s1
           else (case ChaoticSwarm_loop (params s1) t 0 (positions s1) of
                   Inl e \<Rightarrow> Inl e
                 | Inr pos \<Rightarrow> Inr (s1\<lparr>positions := pos\<rparr>)))"


section \<open>Photo frame and gallery focus (PhotoFrame.tsx, src/unnamed/part_001)\<close>

text \<open>
  One photo frame together with the two things it talks to: the gallery's
  \<open>focusedId\<close> (the callbacks \<open>onFocus\<close> and \<open>onBlur\<close> are the gallery's
  \<open>setFocusedId\<close> and \<open>() => setFocusedId(null)\<close>, and the prop \<open>isFocused\<close> is
  \<open>focusedId === data.id\<close>), and the window's timer table. Time is counted in
  milliseconds. \<open>emitted\<close> logs every callback the frame invokes, in order.

  The camera-relative active pose, the orientation slerp and the final blend of the
  per-frame callback only write the scene-graph object; they read but never write the
  state kept here and are left out.
\<close>

datatype Callback = OnFocus string | OnBlur

record PhotoData =
  pd_id :: string
  pd_position :: Vector3
  pd_chaosPos :: Vector3

record PhotoFrame =
  data :: PhotoData
  treeState :: TreeState
  isClearing :: bool
  focusedId :: "string option"
  isFlipped :: bool
  progress :: real
  flipProgress :: real
  visibilityScale :: real
  currentRestingPos :: Vector3
  clickTimeoutRef :: "nat option"
  groupRef :: bool
  now :: nat
  timers :: "(nat \<times> nat) list"
  nextTimer :: nat
  emitted :: "Callback list"

definition PhotoFrame_init :: "PhotoData \<Rightarrow> TreeState \<Rightarrow> PhotoFrame" where
  "PhotoFrame_init d ts =
     \<lparr>data = d, treeState = ts, isClearing = False, focusedId = None,
      isFlipped = False, progress = 0, flipProgress = 0, visibilityScale = 1,
      currentRestingPos = pd_chaosPos d, clickTimeoutRef = None, groupRef = True,
      now = 0, timers = [], nextTimer = 1, emitted = []\<rparr>"

definition isFocused :: "PhotoFrame \<Rightarrow> bool" where
  "isFocused s = (focusedId s = Some (pd_id (data s)))"

definition onFocus :: "string \<Rightarrow> PhotoFrame \<Rightarrow> PhotoFrame" where
  "onFocus i s = s\<lparr>focusedId := Some i, emitted := emitted s @ [OnFocus i]\<rparr>"

definition onBlur :: "PhotoFrame \<Rightarrow> PhotoFrame" where
  "onBlur s = s\<lparr>focusedId := None, emitted := emitted s @ [OnBlur]\<rparr>"

definition setTimeout :: "nat \<Rightarrow> PhotoFrame \<Rightarrow> nat \<times> PhotoFrame" where
  \<comment> \<open>\<open>window.setTimeout\<close>: a fresh handle, due \<open>ms\<close> milliseconds from now\<close>
  "setTimeout ms s =
     (nextTimer s,
      s\<lparr>timers := timers s @ [(nextTimer s, now s + ms)], nextTimer := nextTimer s + 1\<rparr>)"

definition clearTimeout :: "nat \<Rightarrow> PhotoFrame \<Rightarrow> PhotoFrame" where
  "clearTimeout h s = s\<lparr>timers := filter (\<lambda>(h', due). h' \<noteq> h) (timers s)\<rparr>"

definition timeoutCallback :: "PhotoFrame \<Rightarrow> PhotoFrame" where
  \<comment> \<open>the function passed to \<open>setTimeout\<close> in \<open>handleClick\<close>\<close>
  "timeoutCallback s = (onBlur s)\<lparr>clickTimeoutRef := None\<rparr>"

definition handleDoubleClick :: "PhotoFrame \<Rightarrow> PhotoFrame" where
  "handleDoubleClick s =
     (let s1 = (case clickTimeoutRef s of
                  Some h \<Rightarrow> (clearTimeout h s)\<lparr>clickTimeoutRef := None\<rparr>
                | None \<Rightarrow> s)
      in if isFocused s then s1\<lparr>isFlipped := \<not> isFlipped s1\<rparr> else s1)"

definition handleClick :: "PhotoFrame \<Rightarrow> PhotoFrame" where
  "handleClick s =
     (if isClearing s then s
      else if \<not> isFocused s then onFocus (pd_id (data s)) s
      else if clickTimeoutRef s = None
           then (let (h, s1) = setTimeout 250 s in s1\<lparr>clickTimeoutRef := Some h\<rparr>)
           else s)"

definition onPointerMissed :: "PhotoFrame \<Rightarrow> PhotoFrame" where
  "onPointerMissed s = (if isFocused s then onBlur s else s)"

definition unmount :: "PhotoFrame \<Rightarrow> PhotoFrame" where
  \<comment> \<open>the effect cleanup; React also detaches the group ref\<close>
  "unmount s =
     (case clickTimeoutRef s of
        Some h \<Rightarrow> clearTimeout h s
      | None \<Rightarrow> s)\<lparr>groupRef := False\<rparr>"

text \<open>
  The passing of \<open>d\<close> milliseconds: every timer of the table that has come due is taken
  out of the table and its callback runs.
\<close>

fun fireTimers :: "(nat \<times> nat) list \<Rightarrow> nat \<Rightarrow> PhotoFrame \<Rightarrow> PhotoFrame" where
  "fireTimers [] t s = s"
| "fireTimers ((h, due) # ts) t s =
     (if due \<le> t \<and> (h, due) \<in> set (timers s)
      then fireTimers ts t (timeoutCallback (clearTimeout h s))
      else fireTimers ts t s)"

definition elapse :: "nat \<Rightarrow> PhotoFrame \<Rightarrow> PhotoFrame" where
  "elapse d s = (let t = now s + d in fireTimers (timers s) t (s\<lparr>now := t\<rparr>))"

definition PhotoFrame_useFrame :: "real \<Rightarrow> PhotoFrame \<Rightarrow> PhotoFrame" where
  \<comment> \<open>\<open>isFocused\<close> and \<open>isFlipped\<close> are read from \<open>s\<close> throughout: inside one call they
      are the values of the render that created the callback\<close>
  "PhotoFrame_useFrame delta s =
     (if \<not> groupRef s then s
      else
        let s0 = (if isClearing s
                  then (let s' = s\<lparr>visibilityScale := lerp (visibilityScale s) 0 (delta * 3)\<rparr>
                        in if isFocused s then onBlur s' else s')
                  else s\<lparr>visibilityScale := 1\<rparr>);
            destRestingPos = (if treeState s = FORMED then pd_position (data s)
                              else pd_chaosPos (data s));
            moveSpeed = 2.5;
            s1 = s0\<lparr>currentRestingPos :=
                      Vector3_lerp (currentRestingPos s0) destRestingPos (delta * moveSpeed)\<rparr>;
            targetFlip = (if isFlipped s then 1 else 0);
            s2 = s1\<lparr>flipProgress := lerp (flipProgress s1) targetFlip (delta * 2.0)\<rparr>;
            zoomSpeed = 1.5
        in if isFocused s
           then s2\<lparr>progress := min 1 (progress s2 + delta * zoomSpeed)\<rparr>
           else (let s3 = s2\<lparr>progress := max 0 (progress s2 - delta * zoomSpeed)\<rparr>
                 in if progress s3 = 0 \<and> isFlipped s then s3\<lparr>isFlipped := False\<rparr> else s3))"

primrec PhotoFrame_run :: "real \<Rightarrow> nat \<Rightarrow> PhotoFrame \<Rightarrow> PhotoFrame" where
  "PhotoFrame_run delta 0 s = s"
| "PhotoFrame_run delta (Suc n) s = PhotoFrame_useFrame delta (PhotoFrame_run delta n s)"

text \<open>Everything that can happen to a mounted frame, and runs of such events.\<close>

datatype Event =
    Click
  | DoubleClick
  | PointerMissed
  | Elapse nat
  | Frame real
  | SetTreeState TreeState
  | SetClearing bool
  | GalleryFocus string

fun step :: "Event \<Rightarrow> PhotoFrame \<Rightarrow> PhotoFrame" where
  "step Click s = handleClick s"
| "step DoubleClick s = handleDoubleClick s"
| "step PointerMissed s = onPointerMissed s"
| "step (Elapse d) s = elapse d s"
| "step (Frame delta) s = PhotoFrame_useFrame delta s"
| "step (SetTreeState ts) s = s\<lparr>treeState := ts\<rparr>"
| "step (SetClearing b) s = s\<lparr>isClearing := b\<rparr>"
| "step (GalleryFocus i) s = s\<lparr>focusedId := Some i\<rparr>"

fun run :: "Event list \<Rightarrow> PhotoFrame \<Rightarrow> PhotoFrame" where
  "run [] s = s"
| "run (e # es) s = run es (step e s)"

section \<open>Scene: the shared signal and the per-frame tick (Scene.tsx, src/unnamed/part_003)\<close>

text \<open>
  The scene hands the same \<open>treeState\<close> to every component. A toggle changes it and
  re-renders the components; a tick runs each component's per-frame callback with the
  same delta.
\<close>

record Scene =
  signal :: TreeState
  elapsedTime :: real
  foliage :: Foliage
  star :: Star
  frame :: PhotoFrame

datatype SceneEvent = ToggleSignal | Tick real

definition Scene_init :: "PhotoData \<Rightarrow> Scene" where
  "Scene_init d =
     \<lparr>signal = CHAOS, elapsedTime = 0, foliage = Foliage_init, star = Star_init,
      frame = PhotoFrame_init d CHAOS\<rparr>"

fun Scene_step :: "SceneEvent \<Rightarrow> Scene \<Rightarrow> Scene" where
  "Scene_step ToggleSignal sc =
     (let ts = (if signal sc = CHAOS then FORMED else CHAOS)
      in sc\<lparr>signal := ts, star := Star_render (star sc), frame := (frame sc)\<lparr>treeState := ts\<rparr>\<rparr>)"
| "Scene_step (Tick delta) sc =
     (let t = elapsedTime sc + delta
      in sc\<lparr>elapsedTime := t,
            foliage := Foliage_useFrame (signal sc) t delta (foliage sc),
            star := Star_useFrame (signal sc) t delta (star sc),
            frame := PhotoFrame_useFrame delta (frame sc)\<rparr>)"

fun Scene_run :: "SceneEvent list \<Rightarrow> Scene \<Rightarrow> Scene" where
  "Scene_run [] sc = sc"
| "Scene_run (e # es) sc = Scene_run es (Scene_step e sc)"

text \<open>
  The components of the scene whose per-frame callbacks loop over arrays: the three ornament
  batches that \<open>Scene\<close> mounts (30 boxes, 60 balls, 120 lights) and the star's swarm.
\<close>

record Instances =
  boxes :: Ornaments
  balls :: Ornaments
  lights :: Ornaments
  swarm :: ChaoticSwarm

definition Instances_init ::
    "(nat \<Rightarrow> real) \<Rightarrow> (nat \<Rightarrow> real) \<Rightarrow> (nat \<Rightarrow> real) \<Rightarrow> (nat \<Rightarrow> real) \<Rightarrow> Instances" where
  "Instances_init rndBox rndBall rndLight rndSwarm =
     \<lparr>boxes = Ornaments_init rndBox box 30,
      balls = Ornaments_init rndBall ball 60,
      lights = Ornaments_init rndLight light 120,
      swarm = ChaoticSwarm_init rndSwarm\<rparr>"

text \<open>
  The whole canvas: a toggle re-renders, a tick runs every per-frame callback with the same
  tree state, clock reading and delta. The callbacks of the foliage, the star and the photo
  frame have no failing branch (each returns at once when its ref is unset, and reads only
  objects that exist); those of the batches and the swarm may throw, and a throw ends the
  tick. The swarm is handed the \<open>opacity\<close> prop of the star's last render.
\<close>

fun Canvas_step :: "SceneEvent \<Rightarrow> Scene \<times> Instances \<Rightarrow> JsError + Scene \<times> Instances" where
  "Canvas_step ToggleSignal (sc, b) = Inr (Scene_step ToggleSignal sc, b)"
| "Canvas_step (Tick delta) (sc, b) =
     (let t = elapsedTime sc + delta
      in case Ornaments_useFrame (signal sc) t delta (boxes b) of
           Inl e \<Rightarrow> Inl e
         | Inr bx \<Rightarrow>
        (case Ornaments_useFrame (signal sc) t delta (balls b) of
           Inl e \<Rightarrow> Inl e
         | Inr bl \<Rightarrow>
        (case Ornaments_useFrame (signal sc) t delta (lights b) of
           Inl e \<Rightarrow> Inl e
         | Inr lt \<Rightarrow>
        (case ChaoticSwarm_useFrame (swarm_opacity (star sc)) t (swarm b) of
           Inl e \<Rightarrow> Inl e
         | Inr sw \<Rightarrow>
             Inr (Scene_step (Tick delta) sc,
                  \<lparr>boxes = bx, balls = bl, lights = lt, swarm = sw\<rparr>)))))"

fun Canvas_run :: "SceneEvent list \<Rightarrow> Scene \<times> Instances \<Rightarrow> JsError + Scene \<times> Instances" where
  "Canvas_run [] c = Inr c"
| "Canvas_run (e # es) c =
     (case Canvas_step e c of
        Inl err \<Rightarrow> Inl err
      | Inr c' \<Rightarrow> Canvas_run es c')"

section \<open>Notions used in the statements\<close>

text \<open>
  The predicates and sample values of this section are not part of the program: they name
  the properties proved about it, its invariants, and the inputs of the concrete instances.
\<close>



text \<open>A photo as the gallery builds it, used for the concrete instances below.\<close>

definition examplePhoto :: PhotoData where
  "examplePhoto =
     \<lparr>pd_id = ''photo-0'',
      pd_position = position (getSpiralPoint 0 1 12 5.5),
      pd_chaosPos = \<lparr>vx = 3, vy = 4, vz = 0\<rparr>\<rparr>"

text \<open>The five progress scalars of the scene lie in [0, 1].\<close>

definition scalars_in_bounds :: "Scene \<Rightarrow> bool" where
  "scalars_in_bounds sc \<longleftrightarrow>
     0 \<le> progressRef (foliage sc) \<and> progressRef (foliage sc) \<le> 1
   \<and> 0 \<le> star_progress (star sc) \<and> star_progress (star sc) \<le> 1
   \<and> 0 \<le> progress (frame sc) \<and> progress (frame sc) \<le> 1
   \<and> 0 \<le> flipProgress (frame sc) \<and> flipProgress (frame sc) \<le> 1
   \<and> 0 \<le> visibilityScale (frame sc) \<and> visibilityScale (frame sc) \<le> 1"

text \<open>A tick's delta lies in \<open>[0, b]\<close>, or is just non-negative; a toggle has none.\<close>

fun deltaWithin :: "real \<Rightarrow> SceneEvent \<Rightarrow> bool" where
  "deltaWithin b ToggleSignal = True"
| "deltaWithin b (Tick delta) = (0 \<le> delta \<and> delta \<le> b)"

fun deltaNonneg :: "SceneEvent \<Rightarrow> bool" where
  "deltaNonneg ToggleSignal = True"
| "deltaNonneg (Tick delta) = (0 \<le> delta)"

text \<open>
  The timer table holds exactly the timer whose handle is in \<open>clickTimeoutRef\<close>, if any.
\<close>

definition timersOwned :: "PhotoFrame \<Rightarrow> bool" where
  "timersOwned s \<longleftrightarrow>
     map fst (timers s) = (case clickTimeoutRef s of None \<Rightarrow> [] | Some h \<Rightarrow> [h])"

text \<open>Every per-instance array of a batch has one entry per instance.\<close>

definition ornamentsWf :: "Ornaments \<Rightarrow> bool" where
  "ornamentsWf s \<longleftrightarrow>
     length (chaosData s) = orn_count s \<and> length (targetData s) = orn_count s
   \<and> length (speeds s) = orn_count s \<and> length (initialRotations s) = orn_count s
   \<and> length (currentPositions s) = orn_count s \<and> length (instanceMatrix s) = orn_count s"

text \<open>
  What one frame is expected to give instance \<open>i\<close>, written from the statement rather
  than from the loop: the lerped position, the orientation and the uniform scale. The loop
  is compared with it below.
\<close>

definition ornamentTransform :: "TreeState \<Rightarrow> real \<Rightarrow> real \<Rightarrow> nat \<Rightarrow> Ornaments \<Rightarrow> Object3D" where
  "ornamentTransform ts t dt i s =
     \<lparr>obj_position =
        Vector3_lerp (currentPositions s ! i)
          (if ts = FORMED then targetData s ! i else chaosData s ! i) (speeds s ! i * dt),
      obj_rotation =
        (if orn_type s = box then initialRotations s ! i
         else \<lparr>ex = 0, ey = t * 0.1 * (speeds s ! i), ez = 0\<rparr>),
      obj_scale = (if orn_type s = light then 1 + 0.2 * sin (5 * t + real i) else 1)\<rparr>"

text \<open>
  The coordinate of a particle on one axis (0, 1, 2 for x, y, z) at clock reading \<open>t\<close>
  before it is stored, written from the statement; the loop is compared with it below.
\<close>

definition swarmCoord :: "SwarmParam \<Rightarrow> real \<Rightarrow> nat \<Rightarrow> real" where
  "swarmCoord p t axis =
     (if axis = 0 then radius p * sin (t * speed p * freqX p + offX p)
      else if axis = 1 then radius p * sin (t * speed p * freqY p + offY p)
      else radius p * sin (t * speed p * freqZ p + offZ p))"


text \<open>The generated data of a batch is the same in two of its states.\<close>

definition ornamentsSame :: "Ornaments \<Rightarrow> Ornaments \<Rightarrow> bool" where
  "ornamentsSame s s' \<longleftrightarrow>
     meshRef s' = meshRef s \<and> orn_type s' = orn_type s \<and> orn_count s' = orn_count s
   \<and> chaosData s' = chaosData s \<and> targetData s' = targetData s
   \<and> speeds s' = speeds s \<and> initialRotations s' = initialRotations s"

text \<open>
  A stream of draws for the concrete instance: every draw is 1/2, except the height-bias
  draw of each instance, which is 0 (the instance sits at the foot of the tree).
\<close>

definition exampleDraws :: "nat \<Rightarrow> real" where
  "exampleDraws k = (if k mod 10 = 3 then 0 else 1 / 2)"

text \<open>A stream whose every draw is 1/4.\<close>

definition quarterDraws :: "nat \<Rightarrow> real" where
  "quarterDraws k = 1 / 4"

text \<open>A value lies in [0, 1].\<close>

definition inUnit :: "real \<Rightarrow> bool" where
  "inUnit x \<longleftrightarrow> 0 \<le> x \<and> x \<le> 1"

text \<open>
  The swarm has one parameter record and three position entries per particle; the batches and
  the swarm all have their arrays at full length.
\<close>

definition swarmWf :: "ChaoticSwarm \<Rightarrow> bool" where
  "swarmWf s \<longleftrightarrow> length (params s) = swarm_count \<and> length (positions s) = swarm_count * 3"

definition instancesWf :: "Instances \<Rightarrow> bool" where
  "instancesWf b \<longleftrightarrow>
     ornamentsWf (boxes b) \<and> ornamentsWf (balls b) \<and> ornamentsWf (lights b) \<and> swarmWf (swarm b)"

section \<open>Spiral placement: ordering and facing angle\<close>

lemma getSpiralPoint_y:
  "vy (position (getSpiralPoint index totalCount height radiusBase)) =
     (index / totalCount) * height - height / 2"
  by (simp add: getSpiralPoint_def Let_def)

text \<open>
  C1 (as stated, refuted). The claim says the y coordinate strictly decreases as the index
  grows. With the gallery's own arguments (two photos, height 12, base radius 5.5) index 0
  lies at y = -6 and index 1 at y = 0: the later index is higher, not lower.
\<close>

theorem spiral_y_decreasing_counterexample:
  "\<not> vy (position (getSpiralPoint 1 2 12 5.5)) < vy (position (getSpiralPoint 0 2 12 5.5))"
  by (simp add: getSpiralPoint_y)

text \<open>
  C1 (amended). For every total N >= 1, every positive height and every pair of indices
  0 <= i < j <= N-1, the spiral placement function returns points whose y coordinate strictly
  increases as the index increases (bottom-to-top ordering); and for every index the
  returned facing angle is exactly the negation of the polar angle theta = (i/N) * pi * 2 * 4
  at which the position is placed, on the radius radiusBase * (1 - i/N) + 1.5.
\<close>

theorem spiral_y_increasing_and_facing:
  fixes i j N :: nat and height radiusBase :: real
  assumes "1 \<le> N" and "i < j" and "j \<le> N - 1" and "0 < height"
  shows "vy (position (getSpiralPoint (real i) (real N) height radiusBase))
           < vy (position (getSpiralPoint (real j) (real N) height radiusBase))
         \<and> (\<forall>k. let p = getSpiralPoint (real k) (real N) height radiusBase;
                    theta = (real k / real N) * pi * 2 * 4;
                    r = radiusBase * (1 - real k / real N) + 1.5
                in rotationY p = - theta
                   \<and> vx (position p) = r * cos theta
                   \<and> vz (position p) = r * sin theta)"
proof -
  have N: "0 < real N" using assms(1) by simp
  have "real i / real N < real j / real N"
    using assms(2) N by (simp add: divide_strict_right_mono)
  then have "(real i / real N) * height < (real j / real N) * height"
    by (rule mult_strict_right_mono) (rule assms(4))
  then have ylt: "vy (position (getSpiralPoint (real i) (real N) height radiusBase))
           < vy (position (getSpiralPoint (real j) (real N) height radiusBase))"
    by (simp add: getSpiralPoint_y)
  show ?thesis using ylt by (simp add: getSpiralPoint_def Let_def)
qed

theorem spiral_y_increasing_and_facing_witness:
  "(1::nat) \<le> 2 \<and> (0::nat) < 1 \<and> (1::nat) \<le> 2 - 1 \<and> (0::real) < 12
   \<and> vy (position (getSpiralPoint (real (0::nat)) (real (2::nat)) 12 5.5))
     < vy (position (getSpiralPoint (real (1::nat)) (real (2::nat)) 12 5.5))"
  using spiral_y_increasing_and_facing [of 2 0 1 12 "5.5"]
  by simp

section \<open>Cone placement: bounds\<close>

lemma getTreePoint_radius:
  "horizontalRadius (getTreePoint rndTheta rndNoise height baseRadius yRatio) =
     max 0 (baseRadius * (1 - yRatio) + randFloatSpread rndNoise 0.5)"
proof -
  let ?f = "max 0 (baseRadius * (1 - yRatio) + randFloatSpread rndNoise 0.5)"
  let ?t = "rndTheta * pi * 2"
  have "(?f * cos ?t)\<^sup>2 + (?f * sin ?t)\<^sup>2
          = ?f\<^sup>2 * (cos ?t)\<^sup>2 + ?f\<^sup>2 * (sin ?t)\<^sup>2"
    by (simp add: power_mult_distrib)
  also have "\<dots> = ?f\<^sup>2 * ((cos ?t)\<^sup>2 + (sin ?t)\<^sup>2)"
    by (simp only: distrib_left)
  also have "\<dots> = ?f\<^sup>2" by simp
  finally have "sqrt ((?f * cos ?t)\<^sup>2 + (?f * sin ?t)\<^sup>2) = ?f"
    by simp
  then show ?thesis
    by (simp add: horizontalRadius_def getTreePoint_def Let_def)
qed

lemma randFloatSpread_bound:
  "0 \<le> rnd \<Longrightarrow> rnd < 1 \<Longrightarrow> \<bar>randFloatSpread rnd 0.5\<bar> \<le> 0.25"
  by (auto simp: randFloatSpread_def abs_if)

text \<open>
  C4. For heightRatio in [0,1] (and a cone of non-negative height and base radius, the two
  random draws in [0,1)), the point returned by the cone placement function has its y
  coordinate in [-height/2, height/2]; its horizontal radius is the unjittered value
  baseRadius * (1 - heightRatio) plus a jitter of magnitude at most 0.25, clamped at 0:
  it differs from the unjittered value by at most 0.25 and is never negative.
\<close>

theorem cone_bounds:
  fixes height baseRadius yRatio rndTheta rndNoise :: real
  assumes "0 \<le> yRatio" and "yRatio \<le> 1"
      and "0 \<le> height" and "0 \<le> baseRadius"
      and "0 \<le> rndTheta" and "rndTheta < 1" and "0 \<le> rndNoise" and "rndNoise < 1"
  shows "(let p = getTreePoint rndTheta rndNoise height baseRadius yRatio;
              jitter = randFloatSpread rndNoise 0.5
          in - height / 2 \<le> vy p \<and> vy p \<le> height / 2
             \<and> \<bar>jitter\<bar> \<le> 0.25
             \<and> horizontalRadius p = max 0 (baseRadius * (1 - yRatio) + jitter)
             \<and> \<bar>horizontalRadius p - baseRadius * (1 - yRatio)\<bar> \<le> 0.25
             \<and> 0 \<le> horizontalRadius p)"
proof -
  let ?p = "getTreePoint rndTheta rndNoise height baseRadius yRatio"
  let ?j = "randFloatSpread rndNoise 0.5"
  let ?r = "baseRadius * (1 - yRatio)"
  have y: "vy ?p = yRatio * height - height / 2"
    by (simp add: getTreePoint_def Let_def)
  have "0 \<le> yRatio * height" using assms(1,3) by simp
  moreover have "yRatio * height \<le> height"
    using mult_right_mono [OF assms(2,3)] by simp
  ultimately have yb: "- height / 2 \<le> vy ?p \<and> vy ?p \<le> height / 2"
    unfolding y by linarith
  have j: "\<bar>?j\<bar> \<le> 0.25" using assms(7,8) by (rule randFloatSpread_bound)
  have r: "0 \<le> ?r" using assms(2,4) by simp
  have h: "horizontalRadius ?p = max 0 (?r + ?j)" by (rule getTreePoint_radius)
  have d: "\<bar>max 0 (?r + ?j) - ?r\<bar> \<le> 0.25" using j r by linarith
  show ?thesis using yb j h d by (simp add: Let_def)
qed

theorem cone_bounds_witness:
  "(0::real) \<le> 1/2 \<and> (1/2::real) \<le> 1 \<and> (0::real) \<le> 14 \<and> (0::real) \<le> 5
   \<and> (0::real) \<le> 0 \<and> (0::real) < 1 \<and> (0::real) \<le> 3/4 \<and> (3/4::real) < 1
   \<and> \<bar>horizontalRadius (getTreePoint 0 (3/4) 14 5 (1/2)) - 5 * (1 - 1/2)\<bar> \<le> 0.25
   \<and> vy (getTreePoint 0 (3/4) 14 5 (1/2)) \<le> 14 / 2"
  using cone_bounds [of "1/2" 14 5 0 "3/4"]
  by (simp add: Let_def randFloatSpread_def)

section \<open>Exponential damping\<close>






lemma Foliage_useFrame_shaderRef [simp]:
  "shaderRef (Foliage_useFrame ts t dt f) = shaderRef f"
  by (simp add: Foliage_useFrame_def Let_def)

lemma Foliage_run_shaderRef [simp]: "shaderRef (Foliage_run ts dt n f) = shaderRef f"
  by (induction n) simp_all


lemma PhotoFrame_useFrame_props [simp]:
  "groupRef (PhotoFrame_useFrame dt s) = groupRef s"
  "data (PhotoFrame_useFrame dt s) = data s"
  "treeState (PhotoFrame_useFrame dt s) = treeState s"
  "isClearing (PhotoFrame_useFrame dt s) = isClearing s"
  by (simp_all add: PhotoFrame_useFrame_def Let_def onBlur_def)

lemma PhotoFrame_run_props [simp]:
  "groupRef (PhotoFrame_run dt n s) = groupRef s"
  "data (PhotoFrame_run dt n s) = data s"
  "treeState (PhotoFrame_run dt n s) = treeState s"
  "isClearing (PhotoFrame_run dt n s) = isClearing s"
  by (induction n) simp_all



lemma PhotoFrame_useFrame_isFlipped:
  "isFlipped (PhotoFrame_useFrame dt s) =
     (if groupRef s \<and> \<not> isFocused s \<and> max 0 (progress s - dt * 1.5) = 0
      then False else isFlipped s)"
  by (simp add: PhotoFrame_useFrame_def Let_def onBlur_def)

lemma PhotoFrame_useFrame_focusedId:
  "focusedId (PhotoFrame_useFrame dt s) =
     (if groupRef s \<and> isClearing s \<and> isFocused s then None else focusedId s)"
  by (simp add: PhotoFrame_useFrame_def Let_def onBlur_def)






section \<open>Bounds of the progress scalars\<close>

lemma lerp_unit_interval:
  assumes "0 \<le> x" "x \<le> 1" "0 \<le> y" "y \<le> 1" "0 \<le> t" "t \<le> 1"
  shows "0 \<le> lerp x y t \<and> lerp x y t \<le> 1"
proof -
  have a: "0 \<le> (1 - t) * x" "0 \<le> t * y" using assms by simp_all
  have "(1 - t) * x \<le> (1 - t) * 1" using assms by (intro mult_left_mono) simp_all
  moreover have "t * y \<le> t * 1" using assms by (intro mult_left_mono) simp_all
  ultimately have "(1 - t) * x + t * y \<le> 1" by simp
  then show ?thesis using a by (simp add: lerp_def)
qed

lemma Foliage_useFrame_progressRef:
  "progressRef (Foliage_useFrame ts t dt f) =
     (if shaderRef f then lerp (progressRef f) (if ts = FORMED then 1 else 0) (dt * 2.5)
      else progressRef f)"
  by (simp add: Foliage_useFrame_def Let_def)

lemma Star_useFrame_progress:
  "star_progress (Star_useFrame ts t dt s) =
     (if star_groupRef s
      then (let targetVal = (if ts = FORMED then 1 else 0);
                diff = targetVal - star_progress s
            in if \<bar>diff\<bar> > 0.0001
               then clamp (star_progress s + sign diff * dt * (1 / 1.5)) 0 1
               else targetVal)
      else star_progress s)"
  by (simp add: Star_useFrame_def Let_def)

lemma clamp_unit: "0 \<le> clamp v 0 1 \<and> clamp v 0 1 \<le> 1"
  by (simp add: clamp_def)

lemma Star_useFrame_progress_bounds:
  assumes "0 \<le> star_progress s" "star_progress s \<le> 1"
  shows "0 \<le> star_progress (Star_useFrame ts t dt s)
         \<and> star_progress (Star_useFrame ts t dt s) \<le> 1"
  using assms clamp_unit [of "star_progress s + sign ((if ts = FORMED then 1 else 0) - star_progress s) * dt * (1 / 1.5)"]
  by (simp add: Star_useFrame_progress Let_def)

lemma Star_render_progress [simp]: "star_progress (Star_render s) = star_progress s"
  by (simp add: Star_render_def)

lemma PhotoFrame_useFrame_progress:
  "progress (PhotoFrame_useFrame dt s) =
     (if groupRef s
      then (if isFocused s then min 1 (progress s + dt * 1.5)
            else max 0 (progress s - dt * 1.5))
      else progress s)"
  by (simp add: PhotoFrame_useFrame_def Let_def onBlur_def)

lemma PhotoFrame_useFrame_visibilityScale:
  "visibilityScale (PhotoFrame_useFrame dt s) =
     (if groupRef s
      then (if isClearing s then lerp (visibilityScale s) 0 (dt * 3) else 1)
      else visibilityScale s)"
  by (simp add: PhotoFrame_useFrame_def Let_def onBlur_def)

lemma PhotoFrame_useFrame_flip:
  "flipProgress (PhotoFrame_useFrame dt s) =
     (if groupRef s then lerp (flipProgress s) (if isFlipped s then 1 else 0) (dt * 2.0)
      else flipProgress s)"
  by (simp add: PhotoFrame_useFrame_def Let_def onBlur_def)

lemma PhotoFrame_progress_bounds:
  assumes "0 \<le> progress s" "progress s \<le> 1" "0 \<le> dt"
  shows "0 \<le> progress (PhotoFrame_useFrame dt s) \<and> progress (PhotoFrame_useFrame dt s) \<le> 1"
  using assms by (simp add: PhotoFrame_useFrame_progress)

lemma Scene_step_fields:
  "signal (Scene_step ToggleSignal sc) = (if signal sc = CHAOS then FORMED else CHAOS)"
  "foliage (Scene_step ToggleSignal sc) = foliage sc"
  "star (Scene_step ToggleSignal sc) = Star_render (star sc)"
  "frame (Scene_step ToggleSignal sc) =
     (frame sc)\<lparr>treeState := (if signal sc = CHAOS then FORMED else CHAOS)\<rparr>"
  "signal (Scene_step (Tick dt) sc) = signal sc"
  "foliage (Scene_step (Tick dt) sc) =
     Foliage_useFrame (signal sc) (elapsedTime sc + dt) dt (foliage sc)"
  "star (Scene_step (Tick dt) sc) = Star_useFrame (signal sc) (elapsedTime sc + dt) dt (star sc)"
  "frame (Scene_step (Tick dt) sc) = PhotoFrame_useFrame dt (frame sc)"
  by (simp_all add: Let_def)

lemma list_all_take: "list_all P xs \<Longrightarrow> list_all P (take k xs)"
  by (auto simp: list_all_iff dest: in_set_takeD)

lemma Scene_init_fields:
  "signal (Scene_init d) = CHAOS" "foliage (Scene_init d) = Foliage_init"
  by (simp_all add: Scene_init_def)

text \<open>
  C6 (as stated, refuted). From the initial scene, toggling the signal to FORMED, ticking
  with delta = 0.5, toggling back to CHAOS and ticking with delta = 0.5 again leaves the
  foliage field progress at -5/16 (it was 5/4 after the first tick): outside [0,1].
\<close>

theorem progress_scalars_counterexample:
  "\<not> scalars_in_bounds
        (Scene_run [ToggleSignal, Tick (1 / 2), ToggleSignal, Tick (1 / 2)]
           (Scene_init examplePhoto))"
proof -
  let ?sc = "Scene_run [ToggleSignal, Tick (1 / 2), ToggleSignal, Tick (1 / 2)]
               (Scene_init examplePhoto)"
  have "progressRef (foliage ?sc) = - (5 / 16)"
    by (simp add: Scene_step_fields Scene_init_fields Foliage_useFrame_progressRef
        Foliage_init_def lerp_def del: Scene_step.simps)
  then show ?thesis by (simp add: scalars_in_bounds_def)
qed

section \<open>Clearing: visibility and forced blur\<close>

lemma PhotoFrame_useFrame_emitted:
  "emitted (PhotoFrame_useFrame dt s) =
     (if groupRef s \<and> isClearing s \<and> isFocused s then emitted s @ [OnBlur] else emitted s)"
  by (simp add: PhotoFrame_useFrame_def Let_def onBlur_def)

lemma PhotoFrame_useFrame_timers [simp]:
  "timers (PhotoFrame_useFrame dt s) = timers s"
  "clickTimeoutRef (PhotoFrame_useFrame dt s) = clickTimeoutRef s"
  "now (PhotoFrame_useFrame dt s) = now s"
  by (simp_all add: PhotoFrame_useFrame_def Let_def onBlur_def)

lemma PhotoFrame_run_visibilityScale:
  assumes "groupRef s" "isClearing s"
  shows "visibilityScale (PhotoFrame_run dt n s) = (1 - dt * 3) ^ n * visibilityScale s"
proof (induction n)
  case 0
  show ?case by simp
next
  case (Suc n)
  have "visibilityScale (PhotoFrame_run dt (Suc n) s)
          = lerp (visibilityScale (PhotoFrame_run dt n s)) 0 (dt * 3)"
    using assms by (simp add: PhotoFrame_useFrame_visibilityScale)
  then show ?case by (simp add: Suc.IH lerp_def)
qed

text \<open>
  C5. On every per-frame update of a mounted photo frame while the global clearing flag is
  set, visibilityScale is damped toward 0 with rate factor 3: one update replaces it by
  lerp(visibilityScale, 0, 3 * delta) = (1 - 3 * delta) * visibilityScale, so n updates
  multiply it by (1 - 3 * delta)^n; and if the frame is the focused one, the update emits a
  blur, which clears the gallery's focus. On every update where the flag is not set,
  visibilityScale is set to 1. While clearing is active a click changes nothing: no focus
  request is issued.
\<close>

theorem clearing_step:
  assumes "groupRef s"
  shows "(isClearing s \<longrightarrow>
            visibilityScale (PhotoFrame_useFrame dt s) = lerp (visibilityScale s) 0 (dt * 3)
          \<and> visibilityScale (PhotoFrame_useFrame dt s) = (1 - dt * 3) * visibilityScale s
          \<and> (\<forall>n. visibilityScale (PhotoFrame_run dt n s) = (1 - dt * 3) ^ n * visibilityScale s)
          \<and> (isFocused s \<longrightarrow>
                emitted (PhotoFrame_useFrame dt s) = emitted s @ [OnBlur]
              \<and> focusedId (PhotoFrame_useFrame dt s) = None)
          \<and> (\<not> isFocused s \<longrightarrow> emitted (PhotoFrame_useFrame dt s) = emitted s)
          \<and> handleClick s = s)
       \<and> (\<not> isClearing s \<longrightarrow> visibilityScale (PhotoFrame_useFrame dt s) = 1)"
  using assms
  by (simp add: PhotoFrame_useFrame_visibilityScale PhotoFrame_useFrame_emitted
      PhotoFrame_useFrame_focusedId PhotoFrame_run_visibilityScale handleClick_def lerp_def)

theorem clearing_step_witness:
  "groupRef ((PhotoFrame_init examplePhoto FORMED)\<lparr>isClearing := True, focusedId := Some ''photo-0''\<rparr>)
   \<and> isClearing ((PhotoFrame_init examplePhoto FORMED)\<lparr>isClearing := True, focusedId := Some ''photo-0''\<rparr>)
   \<and> isFocused ((PhotoFrame_init examplePhoto FORMED)\<lparr>isClearing := True, focusedId := Some ''photo-0''\<rparr>)
   \<and> visibilityScale (PhotoFrame_useFrame (1 / 60)
        ((PhotoFrame_init examplePhoto FORMED)\<lparr>isClearing := True, focusedId := Some ''photo-0''\<rparr>))
       = 19 / 20
   \<and> emitted (PhotoFrame_useFrame (1 / 60)
        ((PhotoFrame_init examplePhoto FORMED)\<lparr>isClearing := True, focusedId := Some ''photo-0''\<rparr>))
       = [OnBlur]
   \<and> \<not> isClearing (PhotoFrame_init examplePhoto FORMED)
   \<and> visibilityScale (PhotoFrame_useFrame (1 / 60) (PhotoFrame_init examplePhoto FORMED)) = 1
   \<and> \<not> isFocused ((PhotoFrame_init examplePhoto FORMED)\<lparr>isClearing := True\<rparr>)
   \<and> emitted (PhotoFrame_useFrame (1 / 60)
        ((PhotoFrame_init examplePhoto FORMED)\<lparr>isClearing := True\<rparr>)) = []
   \<and> handleClick ((PhotoFrame_init examplePhoto FORMED)\<lparr>isClearing := True\<rparr>)
       = (PhotoFrame_init examplePhoto FORMED)\<lparr>isClearing := True\<rparr>"
  using clearing_step [of "(PhotoFrame_init examplePhoto FORMED)\<lparr>isClearing := True, focusedId := Some ''photo-0''\<rparr>" "1 / 60"]
    clearing_step [of "PhotoFrame_init examplePhoto FORMED" "1 / 60"]
    clearing_step [of "(PhotoFrame_init examplePhoto FORMED)\<lparr>isClearing := True\<rparr>" "1 / 60"]
  by (simp add: PhotoFrame_init_def examplePhoto_def isFocused_def)

section \<open>Clicks, double-clicks and the deferred blur\<close>

lemma elapse_no_timers: "timers s = [] \<Longrightarrow> elapse d s = s\<lparr>now := now s + d\<rparr>"
  by (simp add: elapse_def Let_def)

lemma elapse_one_timer:
  "timers s = [(h, due)] \<Longrightarrow>
     elapse d s =
       (if due \<le> now s + d then timeoutCallback (clearTimeout h (s\<lparr>now := now s + d\<rparr>))
        else s\<lparr>now := now s + d\<rparr>)"
  by (simp add: elapse_def Let_def)

lemma handleClick_arms:
  assumes "isFocused s" "\<not> isClearing s" "clickTimeoutRef s = None"
  shows "handleClick s =
           s\<lparr>timers := timers s @ [(nextTimer s, now s + 250)],
             nextTimer := nextTimer s + 1,
             clickTimeoutRef := Some (nextTimer s)\<rparr>"
  using assms by (simp add: handleClick_def setTimeout_def)

lemma handleClick_pending:
  assumes "isFocused s" "\<not> isClearing s" "clickTimeoutRef s = Some h"
  shows "handleClick s = s"
  using assms by (simp add: handleClick_def)

lemma handleDoubleClick_unfocused:
  "\<not> isFocused s \<Longrightarrow>
     handleDoubleClick s =
       (case clickTimeoutRef s of
          None \<Rightarrow> s
        | Some h \<Rightarrow> (clearTimeout h s)\<lparr>clickTimeoutRef := None\<rparr>)"
  by (simp add: handleDoubleClick_def Let_def split: option.splits)

lemma handleDoubleClick_focused_pending:
  assumes "isFocused s" "clickTimeoutRef s = Some h"
  shows "handleDoubleClick s =
           (clearTimeout h s)\<lparr>clickTimeoutRef := None, isFlipped := \<not> isFlipped s\<rparr>"
  using assms by (simp add: handleDoubleClick_def Let_def clearTimeout_def)

lemma isFocused_cong:
  "focusedId s' = focusedId s \<Longrightarrow> data s' = data s \<Longrightarrow> isFocused s' = isFocused s"
  by (simp add: isFocused_def)

lemma single_click_then_wait:
  assumes "isFocused s" "\<not> isClearing s" "clickTimeoutRef s = None" "timers s = []"
  shows "focusedId (handleClick s) = focusedId s"
    and "emitted (handleClick s) = emitted s"
    and "d < 250 \<Longrightarrow> focusedId (elapse d (handleClick s)) = focusedId s"
    and "d < 250 \<Longrightarrow> emitted (elapse d (handleClick s)) = emitted s"
    and "250 \<le> d \<Longrightarrow> focusedId (elapse d (handleClick s)) = None"
    and "250 \<le> d \<Longrightarrow> emitted (elapse d (handleClick s)) = emitted s @ [OnBlur]"
proof -
  let ?s1 = "handleClick s"
  have s1: "?s1 = s\<lparr>timers := [(nextTimer s, now s + 250)],
             nextTimer := nextTimer s + 1,
             clickTimeoutRef := Some (nextTimer s)\<rparr>"
    using handleClick_arms [OF assms(1-3)] assms(4) by simp
  have t: "timers ?s1 = [(nextTimer s, now s + 250)]" by (simp add: s1)
  show "focusedId ?s1 = focusedId s" "emitted ?s1 = emitted s" by (simp_all add: s1)
  show "d < 250 \<Longrightarrow> focusedId (elapse d ?s1) = focusedId s"
    by (simp add: elapse_one_timer [OF t]) (simp add: s1)
  show "d < 250 \<Longrightarrow> emitted (elapse d ?s1) = emitted s"
    by (simp add: elapse_one_timer [OF t]) (simp add: s1)
  show "250 \<le> d \<Longrightarrow> focusedId (elapse d ?s1) = None"
    by (simp add: elapse_one_timer [OF t] timeoutCallback_def onBlur_def clearTimeout_def)
       (simp add: s1)
  show "250 \<le> d \<Longrightarrow> emitted (elapse d ?s1) = emitted s @ [OnBlur]"
    by (simp add: elapse_one_timer [OF t] timeoutCallback_def onBlur_def clearTimeout_def)
       (simp add: s1)
qed

lemma click_then_early:
  assumes "isFocused s" "\<not> isClearing s" "clickTimeoutRef s = None" "timers s = []" "d < 250"
  shows "elapse d (handleClick s) =
           s\<lparr>timers := [(nextTimer s, now s + 250)],
             nextTimer := nextTimer s + 1,
             clickTimeoutRef := Some (nextTimer s),
             now := now s + d\<rparr>"
proof -
  have s1: "handleClick s = s\<lparr>timers := [(nextTimer s, now s + 250)],
             nextTimer := nextTimer s + 1,
             clickTimeoutRef := Some (nextTimer s)\<rparr>"
    using handleClick_arms [OF assms(1-3)] assms(4) by simp
  have t: "timers (handleClick s) = [(nextTimer s, now s + 250)]" by (simp add: s1)
  show ?thesis
    using assms(5) by (simp add: elapse_one_timer [OF t]) (simp add: s1)
qed

lemma double_click_in_window:
  assumes "isFocused s" "\<not> isClearing s" "clickTimeoutRef s = None" "timers s = []" "d < 250"
  shows "handleClick (elapse d (handleClick s)) = elapse d (handleClick s)"
    and "handleDoubleClick (elapse d (handleClick s)) =
           s\<lparr>timers := [],
             nextTimer := nextTimer s + 1,
             clickTimeoutRef := None,
             now := now s + d,
             isFlipped := \<not> isFlipped s\<rparr>"
proof -
  let ?e = "elapse d (handleClick s)"
  note e = click_then_early [OF assms]
  have f: "isFocused ?e" using assms(1) by (simp add: e isFocused_def)
  have c: "\<not> isClearing ?e" using assms(2) by (simp add: e)
  have r: "clickTimeoutRef ?e = Some (nextTimer s)" by (simp add: e)
  show "handleClick ?e = ?e" using f c r by (rule handleClick_pending)
  show "handleDoubleClick ?e =
           s\<lparr>timers := [],
             nextTimer := nextTimer s + 1,
             clickTimeoutRef := None,
             now := now s + d,
             isFlipped := \<not> isFlipped s\<rparr>"
    by (simp add: handleDoubleClick_focused_pending [OF f r] clearTimeout_def) (simp add: e)
qed

lemma double_click_in_window_after:
  assumes "isFocused s" "\<not> isClearing s" "clickTimeoutRef s = None" "timers s = []" "d < 250"
  shows "isFlipped (handleDoubleClick (elapse d (handleClick s))) = (\<not> isFlipped s)"
    and "timers (handleDoubleClick (elapse d (handleClick s))) = []"
    and "focusedId (elapse d' (handleDoubleClick (elapse d (handleClick s)))) = focusedId s"
    and "emitted (elapse d' (handleDoubleClick (elapse d (handleClick s)))) = emitted s"
proof -
  let ?dc = "handleDoubleClick (elapse d (handleClick s))"
  note dc = double_click_in_window(2) [OF assms]
  have t: "timers ?dc = []" by (simp add: dc)
  show "isFlipped ?dc = (\<not> isFlipped s)" by (simp add: dc)
  show "timers ?dc = []" by (rule t)
  show "focusedId (elapse d' ?dc) = focusedId s"
    by (simp add: elapse_no_timers [OF t]) (simp add: dc)
  show "emitted (elapse d' ?dc) = emitted s"
    by (simp add: elapse_no_timers [OF t]) (simp add: dc)
qed

text \<open>
  C3 (amended). For a frame that is currently focused, outside a clearing operation and with
  no deferred blur pending: a single click does not blur it immediately but arms a deferred
  blur; with no further input the frame is still focused and no blur has been emitted at any
  time before 250ms, and from 250ms on the blur has fired. If a double-click arrives within
  that 250ms window (with or without the second click event that precedes it), the deferred
  blur is cancelled, the flip flag isFlipped is toggled, and no blur occurs however much time
  passes afterwards. A double-click on a frame that is not focused toggles nothing and
  invokes no callback; its only effect is to cancel a pending deferred blur, if there is one.
\<close>

theorem click_disambiguation:
  "(isFocused s \<and> \<not> isClearing s \<and> clickTimeoutRef s = None \<and> timers s = [] \<longrightarrow>
      focusedId (handleClick s) = focusedId s
    \<and> emitted (handleClick s) = emitted s
    \<and> (\<forall>d<250. focusedId (elapse d (handleClick s)) = focusedId s
               \<and> emitted (elapse d (handleClick s)) = emitted s)
    \<and> (\<forall>d\<ge>250. focusedId (elapse d (handleClick s)) = None
               \<and> emitted (elapse d (handleClick s)) = emitted s @ [OnBlur])
    \<and> (\<forall>d<250.
          handleDoubleClick (handleClick (elapse d (handleClick s)))
            = handleDoubleClick (elapse d (handleClick s))
        \<and> isFlipped (handleDoubleClick (elapse d (handleClick s))) = (\<not> isFlipped s)
        \<and> timers (handleDoubleClick (elapse d (handleClick s))) = []
        \<and> (\<forall>d'. focusedId (elapse d' (handleDoubleClick (elapse d (handleClick s)))) = focusedId s
                \<and> emitted (elapse d' (handleDoubleClick (elapse d (handleClick s)))) = emitted s)))
   \<and> (\<not> isFocused s \<longrightarrow>
        handleDoubleClick s =
          (case clickTimeoutRef s of
             None \<Rightarrow> s
           | Some h \<Rightarrow> (clearTimeout h s)\<lparr>clickTimeoutRef := None\<rparr>)
      \<and> isFlipped (handleDoubleClick s) = isFlipped s
      \<and> focusedId (handleDoubleClick s) = focusedId s
      \<and> emitted (handleDoubleClick s) = emitted s)"
proof (intro conjI impI)
  assume "\<not> isFocused s"
  then show u: "handleDoubleClick s =
          (case clickTimeoutRef s of
             None \<Rightarrow> s
           | Some h \<Rightarrow> (clearTimeout h s)\<lparr>clickTimeoutRef := None\<rparr>)"
    by (rule handleDoubleClick_unfocused)
  show "isFlipped (handleDoubleClick s) = isFlipped s"
    by (simp add: u clearTimeout_def split: option.splits)
  show "focusedId (handleDoubleClick s) = focusedId s"
    by (simp add: u clearTimeout_def split: option.splits)
  show "emitted (handleDoubleClick s) = emitted s"
    by (simp add: u clearTimeout_def split: option.splits)
next
  assume "isFocused s \<and> \<not> isClearing s \<and> clickTimeoutRef s = None \<and> timers s = []"
  then have h: "isFocused s" "\<not> isClearing s" "clickTimeoutRef s = None" "timers s = []"
    by simp_all
  show "focusedId (handleClick s) = focusedId s" "emitted (handleClick s) = emitted s"
    using single_click_then_wait(1,2) [OF h] by simp_all
  show "\<forall>d<250. focusedId (elapse d (handleClick s)) = focusedId s
               \<and> emitted (elapse d (handleClick s)) = emitted s"
    using single_click_then_wait(3,4) [OF h] by blast
  show "\<forall>d\<ge>250. focusedId (elapse d (handleClick s)) = None
               \<and> emitted (elapse d (handleClick s)) = emitted s @ [OnBlur]"
    using single_click_then_wait(5,6) [OF h] by blast
  show "\<forall>d<250.
          handleDoubleClick (handleClick (elapse d (handleClick s)))
            = handleDoubleClick (elapse d (handleClick s))
        \<and> isFlipped (handleDoubleClick (elapse d (handleClick s))) = (\<not> isFlipped s)
        \<and> timers (handleDoubleClick (elapse d (handleClick s))) = []
        \<and> (\<forall>d'. focusedId (elapse d' (handleDoubleClick (elapse d (handleClick s)))) = focusedId s
                \<and> emitted (elapse d' (handleDoubleClick (elapse d (handleClick s)))) = emitted s)"
    using double_click_in_window(1) [OF h] double_click_in_window_after [OF h]
    by simp
qed

lemmas frame_eval =
  PhotoFrame_init_def examplePhoto_def isFocused_def handleClick_def handleDoubleClick_def
  onFocus_def onBlur_def setTimeout_def clearTimeout_def timeoutCallback_def elapse_def
  onPointerMissed_def Let_def

lemma focused_example:
  "run [Click] (PhotoFrame_init examplePhoto FORMED) =
     (PhotoFrame_init examplePhoto FORMED)
       \<lparr>focusedId := Some ''photo-0'', emitted := [OnFocus ''photo-0'']\<rparr>"
  by (simp add: frame_eval)

theorem click_disambiguation_witness:
  "isFocused (run [Click] (PhotoFrame_init examplePhoto FORMED))
   \<and> \<not> isClearing (run [Click] (PhotoFrame_init examplePhoto FORMED))
   \<and> clickTimeoutRef (run [Click] (PhotoFrame_init examplePhoto FORMED)) = None
   \<and> timers (run [Click] (PhotoFrame_init examplePhoto FORMED)) = []
   \<and> emitted (elapse 250 (handleClick (run [Click] (PhotoFrame_init examplePhoto FORMED))))
       = [OnFocus ''photo-0'', OnBlur]
   \<and> emitted (elapse 249 (handleClick (run [Click] (PhotoFrame_init examplePhoto FORMED))))
       = [OnFocus ''photo-0'']
   \<and> isFlipped (handleDoubleClick
         (elapse 100 (handleClick (run [Click] (PhotoFrame_init examplePhoto FORMED)))))
   \<and> \<not> isFocused (PhotoFrame_init examplePhoto FORMED)
   \<and> \<not> isFlipped (handleDoubleClick (PhotoFrame_init examplePhoto FORMED))"
proof -
  let ?i = "PhotoFrame_init examplePhoto FORMED"
  let ?w = "run [Click] ?i"
  have w: "isFocused ?w \<and> \<not> isClearing ?w \<and> clickTimeoutRef ?w = None \<and> timers ?w = []"
    unfolding focused_example by (simp add: PhotoFrame_init_def examplePhoto_def isFocused_def)
  have w': "emitted ?w = [OnFocus ''photo-0'']" "\<not> isFlipped ?w"
    unfolding focused_example by (simp_all add: PhotoFrame_init_def)
  have i: "\<not> isFocused ?i" "\<not> isFlipped ?i"
    by (simp_all add: PhotoFrame_init_def isFocused_def)
  note T = mp [OF conjunct1 [OF click_disambiguation [of ?w]] w]
  note U = mp [OF conjunct2 [OF click_disambiguation [of ?i]] i(1)]
  from T have late: "\<forall>d\<ge>250. focusedId (elapse d (handleClick ?w)) = None
               \<and> emitted (elapse d (handleClick ?w)) = emitted ?w @ [OnBlur]"
    by (elim conjE)
  from T have early: "\<forall>d<250. focusedId (elapse d (handleClick ?w)) = focusedId ?w
               \<and> emitted (elapse d (handleClick ?w)) = emitted ?w"
    by (elim conjE)
  from T have dbl: "\<forall>d<250.
          handleDoubleClick (handleClick (elapse d (handleClick ?w)))
            = handleDoubleClick (elapse d (handleClick ?w))
        \<and> isFlipped (handleDoubleClick (elapse d (handleClick ?w))) = (\<not> isFlipped ?w)
        \<and> timers (handleDoubleClick (elapse d (handleClick ?w))) = []
        \<and> (\<forall>d'. focusedId (elapse d' (handleDoubleClick (elapse d (handleClick ?w)))) = focusedId ?w
                \<and> emitted (elapse d' (handleDoubleClick (elapse d (handleClick ?w)))) = emitted ?w)"
    by (elim conjE)
  have a: "emitted (elapse 250 (handleClick ?w)) = [OnFocus ''photo-0'', OnBlur]"
    using late [rule_format, of 250] w'(1) by simp
  have b: "emitted (elapse 249 (handleClick ?w)) = [OnFocus ''photo-0'']"
    using early [rule_format, of 249] w'(1) by simp
  have c: "isFlipped (handleDoubleClick (elapse 100 (handleClick ?w)))"
    using dbl [rule_format, of 100] w'(2) by simp
  from U have "isFlipped (handleDoubleClick ?i) = isFlipped ?i"
    by (elim conjE)
  then have d: "\<not> isFlipped (handleDoubleClick ?i)"
    using i(2) by blast
  show ?thesis using w a b c i(1) d by blast
qed

text \<open>
  C3 (as stated, refuted). Frame photo-0 is clicked (it gains the focus) and clicked again
  (the deferred blur is armed); then the gallery's focus moves to photo-1. Photo-0 is now not
  focused, and a double-click on it does act: it cancels the pending blur, so that after
  250ms no blur has been emitted where one is emitted without the double-click. And a frame
  that is focused while clearing is active arms no deferred blur on a click.
\<close>

theorem double_click_unfocused_counterexample:
  "\<not> isFocused (run [Click, Click, GalleryFocus ''photo-1''] (PhotoFrame_init examplePhoto FORMED))
   \<and> handleDoubleClick (run [Click, Click, GalleryFocus ''photo-1''] (PhotoFrame_init examplePhoto FORMED))
       \<noteq> run [Click, Click, GalleryFocus ''photo-1''] (PhotoFrame_init examplePhoto FORMED)
   \<and> emitted (elapse 250
        (run [Click, Click, GalleryFocus ''photo-1''] (PhotoFrame_init examplePhoto FORMED)))
       = [OnFocus ''photo-0'', OnBlur]
   \<and> emitted (elapse 250 (handleDoubleClick
        (run [Click, Click, GalleryFocus ''photo-1''] (PhotoFrame_init examplePhoto FORMED))))
       = [OnFocus ''photo-0'']
   \<and> isFocused (run [Click, SetClearing True] (PhotoFrame_init examplePhoto FORMED))
   \<and> timers (handleClick (run [Click, SetClearing True] (PhotoFrame_init examplePhoto FORMED))) = []"
proof -
  let ?i = "PhotoFrame_init examplePhoto FORMED"
  let ?u = "run [Click, Click, GalleryFocus ''photo-1''] ?i"
  have u: "?u = ?i\<lparr>focusedId := Some ''photo-1'', emitted := [OnFocus ''photo-0''],
                   timers := [(1, 250)], nextTimer := 2, clickTimeoutRef := Some 1\<rparr>"
    by (simp add: frame_eval)
  have 1: "\<not> isFocused ?u" unfolding u by (simp add: frame_eval)
  have t: "timers (handleDoubleClick ?u) = []" unfolding u by (simp add: frame_eval)
  have "timers ?u \<noteq> timers (handleDoubleClick ?u)" unfolding t unfolding u by simp
  then have 2: "handleDoubleClick ?u \<noteq> ?u" by metis
  have 3: "emitted (elapse 250 ?u) = [OnFocus ''photo-0'', OnBlur]"
    unfolding u by (simp add: frame_eval)
  have 4: "emitted (elapse 250 (handleDoubleClick ?u)) = [OnFocus ''photo-0'']"
    unfolding u by (simp add: frame_eval)
  have 5: "isFocused (run [Click, SetClearing True] ?i)" by (simp add: frame_eval)
  have 6: "timers (handleClick (run [Click, SetClearing True] ?i)) = []"
    by (simp add: frame_eval)
  show ?thesis using 1 2 3 4 5 6 by blast
qed

lemma timersOwned_none: "timersOwned s \<Longrightarrow> clickTimeoutRef s = None \<Longrightarrow> timers s = []"
  by (simp add: timersOwned_def)

lemma timersOwned_some:
  assumes "timersOwned s" "clickTimeoutRef s = Some h"
  shows "\<exists>due. timers s = [(h, due)]"
proof -
  have "map fst (timers s) = [h]" using assms by (simp add: timersOwned_def)
  then obtain p where p: "timers s = [p]" "fst p = h" by auto
  then have "timers s = [(h, snd p)]" by (cases p) simp
  then show ?thesis by blast
qed

lemma timersOwned_handleClick: "timersOwned s \<Longrightarrow> timersOwned (handleClick s)"
  by (simp add: timersOwned_def handleClick_def onFocus_def setTimeout_def)

lemma timersOwned_handleDoubleClick:
  assumes "timersOwned s"
  shows "timersOwned (handleDoubleClick s)" and "timers (handleDoubleClick s) = []"
proof -
  have "timers (handleDoubleClick s) = [] \<and> clickTimeoutRef (handleDoubleClick s) = None"
  proof (cases "clickTimeoutRef s")
    case None
    then show ?thesis
      using timersOwned_none [OF assms None] by (simp add: handleDoubleClick_def Let_def)
  next
    case (Some h)
    then obtain due where "timers s = [(h, due)]"
      using timersOwned_some [OF assms] by blast
    then show ?thesis
      using Some by (simp add: handleDoubleClick_def Let_def clearTimeout_def)
  qed
  then show "timersOwned (handleDoubleClick s)" and "timers (handleDoubleClick s) = []"
    by (simp_all add: timersOwned_def)
qed

lemma timersOwned_elapse:
  assumes "timersOwned s"
  shows "timersOwned (elapse d s)"
proof (cases "clickTimeoutRef s")
  case None
  then show ?thesis
    using assms timersOwned_none [OF assms None]
    by (simp add: elapse_no_timers timersOwned_def)
next
  case (Some h)
  then obtain due where t: "timers s = [(h, due)]"
    using timersOwned_some [OF assms] by blast
  show ?thesis
    using Some t
    by (simp add: elapse_one_timer [OF t] timersOwned_def timeoutCallback_def onBlur_def
        clearTimeout_def)
qed

lemma timersOwned_step: "timersOwned s \<Longrightarrow> timersOwned (step e s)"
proof (cases e)
  case Click
  then show "timersOwned s \<Longrightarrow> ?thesis" by (simp add: timersOwned_handleClick)
next
  case DoubleClick
  then show "timersOwned s \<Longrightarrow> ?thesis" by (simp add: timersOwned_handleDoubleClick(1))
next
  case PointerMissed
  then show "timersOwned s \<Longrightarrow> ?thesis"
    by (simp add: timersOwned_def onPointerMissed_def onBlur_def)
next
  case (Elapse d)
  then show "timersOwned s \<Longrightarrow> ?thesis" by (simp add: timersOwned_elapse)
next
  case (Frame dt)
  then show "timersOwned s \<Longrightarrow> ?thesis" by (simp add: timersOwned_def)
next
  case (SetTreeState ts)
  then show "timersOwned s \<Longrightarrow> ?thesis" by (simp add: timersOwned_def)
next
  case (SetClearing b)
  then show "timersOwned s \<Longrightarrow> ?thesis" by (simp add: timersOwned_def)
next
  case (GalleryFocus i)
  then show "timersOwned s \<Longrightarrow> ?thesis" by (simp add: timersOwned_def)
qed

lemma timersOwned_run: "timersOwned s \<Longrightarrow> timersOwned (run es s)"
  by (induction es arbitrary: s) (simp_all add: timersOwned_step del: step.simps)

lemma timersOwned_init: "timersOwned (PhotoFrame_init d ts)"
  by (simp add: timersOwned_def PhotoFrame_init_def)

lemma unmount_cancels:
  assumes "timersOwned s"
  shows "timers (unmount s) = []"
    and "emitted (unmount s) = emitted s"
    and "focusedId (unmount s) = focusedId s"
proof -
  show "timers (unmount s) = []"
  proof (cases "clickTimeoutRef s")
    case None
    then show ?thesis using timersOwned_none [OF assms None] by (simp add: unmount_def)
  next
    case (Some h)
    then obtain due where "timers s = [(h, due)]"
      using timersOwned_some [OF assms] by blast
    then show ?thesis using Some by (simp add: unmount_def clearTimeout_def)
  qed
  show "emitted (unmount s) = emitted s" "focusedId (unmount s) = focusedId s"
    by (simp_all add: unmount_def clearTimeout_def split: option.splits)
qed

lemma handleDoubleClick_silent:
  "emitted (handleDoubleClick s) = emitted s" "focusedId (handleDoubleClick s) = focusedId s"
  by (simp_all add: handleDoubleClick_def Let_def clearTimeout_def split: option.splits)

lemma elapse_quiet:
  "timers s = [] \<Longrightarrow> emitted (elapse t s) = emitted s \<and> focusedId (elapse t s) = focusedId s"
  by (simp add: elapse_no_timers)

text \<open>
  C9. In every state a mounted photo frame can reach, tearing the frame down cancels the
  deferred single-click blur timer: the timer table is empty afterwards, and however much
  time then passes no blur callback runs (nothing is emitted and the gallery's focus is left
  as it was). A double-click cancels a pending timer in the same way.
\<close>

theorem deferred_blur_cancelled:
  assumes "s = run es (PhotoFrame_init d ts)"
  shows "timers (unmount s) = []
       \<and> (\<forall>t. emitted (elapse t (unmount s)) = emitted s
              \<and> focusedId (elapse t (unmount s)) = focusedId s)
       \<and> timers (handleDoubleClick s) = []
       \<and> (\<forall>t. emitted (elapse t (handleDoubleClick s)) = emitted s
              \<and> focusedId (elapse t (handleDoubleClick s)) = focusedId s)"
proof -
  have o: "timersOwned s" unfolding assms by (rule timersOwned_run) (rule timersOwned_init)
  note u = unmount_cancels [OF o]
  note dc = timersOwned_handleDoubleClick(2) [OF o]
  show ?thesis
    using u(1) dc elapse_quiet [OF u(1)] elapse_quiet [OF dc] u(2,3) handleDoubleClick_silent [of s]
    by simp
qed

theorem deferred_blur_cancelled_witness:
  "timers (run [Click, Click] (PhotoFrame_init examplePhoto FORMED)) = [(1, 250)]
   \<and> emitted (elapse 250 (run [Click, Click] (PhotoFrame_init examplePhoto FORMED)))
       = [OnFocus ''photo-0'', OnBlur]
   \<and> timers (unmount (run [Click, Click] (PhotoFrame_init examplePhoto FORMED))) = []
   \<and> emitted (elapse 250 (unmount (run [Click, Click] (PhotoFrame_init examplePhoto FORMED))))
       = [OnFocus ''photo-0'']
   \<and> emitted (elapse 250 (handleDoubleClick (run [Click, Click] (PhotoFrame_init examplePhoto FORMED))))
       = [OnFocus ''photo-0'']"
proof -
  let ?s = "run [Click, Click] (PhotoFrame_init examplePhoto FORMED)"
  have s: "?s = (PhotoFrame_init examplePhoto FORMED)
             \<lparr>focusedId := Some ''photo-0'', emitted := [OnFocus ''photo-0''],
              timers := [(1, 250)], nextTimer := 2, clickTimeoutRef := Some 1\<rparr>"
    by (simp add: frame_eval)
  have 1: "timers ?s = [(1, 250)]" "emitted ?s = [OnFocus ''photo-0'']"
    unfolding s by simp_all
  have 2: "emitted (elapse 250 ?s) = [OnFocus ''photo-0'', OnBlur]"
    unfolding s by (simp add: frame_eval)
  note T = deferred_blur_cancelled [of ?s "[Click, Click]" examplePhoto FORMED, OF refl]
  from T have 3: "timers (unmount ?s) = []" by (elim conjE)
  from T have "\<forall>t. emitted (elapse t (unmount ?s)) = emitted ?s
              \<and> focusedId (elapse t (unmount ?s)) = focusedId ?s" by (elim conjE)
  then have 4: "emitted (elapse 250 (unmount ?s)) = [OnFocus ''photo-0'']"
    using 1(2) by simp
  from T have "\<forall>t. emitted (elapse t (handleDoubleClick ?s)) = emitted ?s
              \<and> focusedId (elapse t (handleDoubleClick ?s)) = focusedId ?s" by (elim conjE)
  then have 5: "emitted (elapse 250 (handleDoubleClick ?s)) = [OnFocus ''photo-0'']"
    using 1(2) by simp
  show ?thesis using 1(1) 2 3 4 5 by blast
qed

section \<open>Star: what a frame drives, and the point light\<close>

text \<open>
  One frame moves the raw progress toward its target at rate 1/1.5 per second, clamped to
  [0,1] (snapping to the target within 0.0001 of it), and sets the material's opacity to the
  smoothstep of the new progress, its emissive intensity to twice that, the group's
  visibility to whether that exceeds 0.01 and its scale to 1.5 minus half of it. It leaves
  the point light's intensity as the last render set it.
\<close>

lemma Star_useFrame_drives:
  assumes "star_groupRef s"
  shows "(let s' = Star_useFrame ts t dt s;
              targetVal = (if ts = FORMED then 1 else 0);
              p = smoothstep (star_progress s') 0 1
          in star_progress s' =
               (if \<bar>targetVal - star_progress s\<bar> > 0.0001
                then clamp (star_progress s + sign (targetVal - star_progress s) * dt * (1 / 1.5)) 0 1
                else targetVal)
           \<and> 0 \<le> star_progress s' \<and> star_progress s' \<le> 1
           \<and> material_opacity s' = p
           \<and> material_emissiveIntensity s' = 2 * p
           \<and> group_visible s' = (p > 0.01)
           \<and> group_scale s' = 1.5 - 0.5 * p
           \<and> pointLight_intensity s' = pointLight_intensity s)"
proof -
  have b: "0 \<le> star_progress (Star_useFrame ts t dt s) \<and> star_progress (Star_useFrame ts t dt s) \<le> 1"
    using assms clamp_unit [of "star_progress s + sign ((if ts = FORMED then 1 else 0) - star_progress s) * dt * (1 / 1.5)"]
    by (simp add: Star_useFrame_progress Let_def)
  show ?thesis
    using b assms unfolding Let_def
    by (simp add: Star_useFrame_def Let_def)
qed

text \<open>
  C7 (the code departs from the claim). The scene starts in CHAOS with the star rendered at
  progress 0; the signal is toggled to FORMED (the star is rendered again, still at progress
  0) and one frame of 0.3 seconds runs. The raw progress is then 0.2 and the material follows
  it (opacity = smoothstep(0.2) = 0.104), but the point light's intensity is still the 0 it
  was given at the last render, not 2 * 0.2 = 0.4: the per-frame callback never writes it.
\<close>

theorem star_pointLight_stale:
  "star_progress (star (Scene_run [ToggleSignal, Tick (3 / 10)] (Scene_init examplePhoto))) = 1 / 5
   \<and> material_opacity (star (Scene_run [ToggleSignal, Tick (3 / 10)] (Scene_init examplePhoto)))
       = 13 / 125
   \<and> pointLight_intensity (star (Scene_run [ToggleSignal, Tick (3 / 10)] (Scene_init examplePhoto)))
       = 0"
  by (simp add: Scene_step_fields Scene_init_def Star_init_def Star_render_def
      Star_useFrame_def Let_def clamp_def sign_def smoothstep_def del: Scene_step.simps)

section \<open>Ornament batches: one frame of the loop\<close>

lemma ornamentsSame_refl [simp]: "ornamentsSame s s"
  by (simp add: ornamentsSame_def)

lemma ornamentsSame_trans: "ornamentsSame a b \<Longrightarrow> ornamentsSame b c \<Longrightarrow> ornamentsSame a c"
  by (simp add: ornamentsSame_def)

lemma ornamentTransform_same:
  "ornamentsSame s s' \<Longrightarrow> currentPositions s' ! j = currentPositions s ! j
     \<Longrightarrow> ornamentTransform ts t dt j s' = ornamentTransform ts t dt j s"
  by (simp add: ornamentTransform_def ornamentsSame_def)

lemma Ornaments_body_ok:
  assumes "ornamentsWf s" "i < orn_count s"
  shows "Ornaments_body ts t dt i s =
           Inr (s\<lparr>currentPositions :=
                    (currentPositions s)[i := obj_position (ornamentTransform ts t dt i s)],
                  tempObject := ornamentTransform ts t dt i s,
                  instanceMatrix := (instanceMatrix s)[i := ornamentTransform ts t dt i s]\<rparr>)"
  using assms
  by (simp add: Ornaments_body_def Let_def ornamentsWf_def ornamentTransform_def algebra_simps)

lemma Ornaments_loop_result:
  "ornamentsWf s \<Longrightarrow>
     \<exists>s'. Ornaments_loop ts t dt i s = Inr s' \<and> ornamentsWf s' \<and> ornamentsSame s s'
        \<and> (\<forall>j<orn_count s.
              instanceMatrix s' ! j
                = (if i \<le> j then ornamentTransform ts t dt j s else instanceMatrix s ! j)
            \<and> currentPositions s' ! j
                = (if i \<le> j then obj_position (ornamentTransform ts t dt j s)
                   else currentPositions s ! j))"
proof (induction ts t dt i s rule: Ornaments_loop.induct)
  case (1 ts t dt i s)
  show ?case
  proof (cases "i < orn_count s")
    case False
    then show ?thesis
      using "1.prems" by (subst Ornaments_loop.simps) simp
  next
    case True
    let ?T = "ornamentTransform ts t dt i s"
    let ?b = "s\<lparr>currentPositions := (currentPositions s)[i := obj_position ?T],
                tempObject := ?T,
                instanceMatrix := (instanceMatrix s)[i := ?T]\<rparr>"
    have body: "Ornaments_body ts t dt i s = Inr ?b"
      using "1.prems" True by (rule Ornaments_body_ok)
    have wfb: "ornamentsWf ?b" using "1.prems" by (simp add: ornamentsWf_def)
    have sameb: "ornamentsSame s ?b" by (simp add: ornamentsSame_def)
    have len: "i < length (instanceMatrix s)" "i < length (currentPositions s)"
      using "1.prems" True by (simp_all add: ornamentsWf_def)
    from "1.IH" [OF True body wfb] obtain s' where
      run: "Ornaments_loop ts t dt (i + 1) ?b = Inr s'" and wf': "ornamentsWf s'"
      and same': "ornamentsSame ?b s'"
      and res: "\<forall>j<orn_count ?b.
              instanceMatrix s' ! j
                = (if i + 1 \<le> j then ornamentTransform ts t dt j ?b else instanceMatrix ?b ! j)
            \<and> currentPositions s' ! j
                = (if i + 1 \<le> j then obj_position (ornamentTransform ts t dt j ?b)
                   else currentPositions ?b ! j)"
      by blast
    have unfold: "Ornaments_loop ts t dt i s = Inr s'"
      using True body run by (subst Ornaments_loop.simps) simp
    have each: "instanceMatrix s' ! j
                = (if i \<le> j then ornamentTransform ts t dt j s else instanceMatrix s ! j)
            \<and> currentPositions s' ! j
                = (if i \<le> j then obj_position (ornamentTransform ts t dt j s)
                   else currentPositions s ! j)" if j: "j < orn_count s" for j
    proof -
      have r: "instanceMatrix s' ! j
                = (if i + 1 \<le> j then ornamentTransform ts t dt j ?b else instanceMatrix ?b ! j)"
        "currentPositions s' ! j
                = (if i + 1 \<le> j then obj_position (ornamentTransform ts t dt j ?b)
                   else currentPositions ?b ! j)"
        using res j by simp_all
      consider "i + 1 \<le> j" | "j = i" | "j < i" by arith
      then show ?thesis
      proof cases
        case 1
        then have "ornamentTransform ts t dt j ?b = ornamentTransform ts t dt j s"
          by (intro ornamentTransform_same sameb) simp
        then show ?thesis using r 1 by simp
      next
        case 2
        then show ?thesis using r len by simp
      next
        case 3
        then show ?thesis using r by simp
      qed
    qed
    show ?thesis
      using unfold wf' ornamentsSame_trans [OF sameb same'] each by blast
  qed
qed

lemma Ornaments_useFrame_result:
  assumes "ornamentsWf s"
  shows "\<exists>s'. Ornaments_useFrame ts t dt s = Inr s' \<and> ornamentsWf s' \<and> ornamentsSame s s'
        \<and> (meshRef s \<longrightarrow> (\<forall>j<orn_count s.
              instanceMatrix s' ! j = ornamentTransform ts t dt j s
            \<and> currentPositions s' ! j = obj_position (ornamentTransform ts t dt j s)))"
proof (cases "meshRef s")
  case False
  then show ?thesis using assms by (simp add: Ornaments_useFrame_def)
next
  case True
  from Ornaments_loop_result [OF assms, of ts t dt 0] obtain s' where
    "Ornaments_loop ts t dt 0 s = Inr s'" "ornamentsWf s'" "ornamentsSame s s'"
    "\<forall>j<orn_count s.
              instanceMatrix s' ! j = ornamentTransform ts t dt j s
            \<and> currentPositions s' ! j = obj_position (ornamentTransform ts t dt j s)"
    by auto
  then show ?thesis using True by (simp add: Ornaments_useFrame_def)
qed

lemma Ornaments_frames_result:
  "ornamentsWf s \<Longrightarrow>
     \<exists>s'. Ornaments_frames fs s = Inr s' \<and> ornamentsWf s' \<and> ornamentsSame s s'"
proof (induction fs arbitrary: s)
  case Nil
  then show ?case by simp
next
  case (Cons f fs)
  obtain ts t dt where f: "f = (ts, t, dt)" by (cases f) auto
  from Ornaments_useFrame_result [OF Cons.prems, of ts t dt] obtain s1 where
    s1: "Ornaments_useFrame ts t dt s = Inr s1" "ornamentsWf s1" "ornamentsSame s s1"
    by blast
  from Cons.IH [OF s1(2)] obtain s' where
    "Ornaments_frames fs s1 = Inr s'" "ornamentsWf s'" "ornamentsSame s1 s'" by blast
  then show ?case
    using s1 f ornamentsSame_trans [OF s1(3)] by auto
qed

lemma ornamentsWf_init: "ornamentsWf (Ornaments_init rnd ty n)"
  by (simp add: ornamentsWf_def Ornaments_init_def)

lemma Ornaments_init_fields:
  "meshRef (Ornaments_init rnd ty n)"
  "orn_type (Ornaments_init rnd ty n) = ty"
  "orn_count (Ornaments_init rnd ty n) = n"
  "i < n \<Longrightarrow> chaosData (Ornaments_init rnd ty n) ! i = ornament_chaos rnd i"
  "i < n \<Longrightarrow> targetData (Ornaments_init rnd ty n) ! i = ornament_target rnd ty i"
  "i < n \<Longrightarrow> speeds (Ornaments_init rnd ty n) ! i = ornament_speed rnd i"
  "i < n \<Longrightarrow> initialRotations (Ornaments_init rnd ty n) ! i = ornament_rotation rnd i"
  "i < n \<Longrightarrow> currentPositions (Ornaments_init rnd ty n) ! i = ornament_chaos rnd i"
  by (simp_all add: Ornaments_init_def)

text \<open>
  C8. A batch generated from random draws in [0,1) and advanced by any number of frames
  never throws, and the next per-frame update gives every instance i: a position lerped from
  its current position toward its target (the tree target if FORMED, the chaos point if
  CHAOS) by factor speed * delta, that is, each coordinate c becomes
  c + (target - c) * (speed * delta), where the instance's speed 1 + 2 * draw lies in [1,3);
  for a box, its fixed random initial orientation (three draws times pi), whatever the clock
  reads; for a ball or a light, a rotation about the vertical axis alone by
  elapsed time * 0.1 * speed; and uniform scale 1 + 0.2 * sin(5 * elapsedTime + i) for a
  light, 1 for the other types.
\<close>

theorem ornaments_frame:
  assumes "\<forall>k. 0 \<le> rnd k \<and> rnd k < 1" and "i < n"
  shows "\<exists>s s'. Ornaments_frames fs (Ornaments_init rnd ty n) = Inr s
           \<and> Ornaments_useFrame ts t dt s = Inr s'
           \<and> (let speed = speeds s ! i;
                   target = (if ts = FORMED then targetData s ! i else chaosData s ! i);
                   cur = currentPositions s ! i;
                   cur' = currentPositions s' ! i;
                   m = instanceMatrix s' ! i
               in speed = 1 + rnd (10 * i + 6) * 2 \<and> 1 \<le> speed \<and> speed < 3
                \<and> target = (if ts = FORMED then ornament_target rnd ty i else ornament_chaos rnd i)
                \<and> vx cur' = vx cur + (vx target - vx cur) * (speed * dt)
                \<and> vy cur' = vy cur + (vy target - vy cur) * (speed * dt)
                \<and> vz cur' = vz cur + (vz target - vz cur) * (speed * dt)
                \<and> obj_position m = cur'
                \<and> obj_rotation m
                    = (if ty = box
                       then \<lparr>ex = rnd (10 * i + 7) * pi, ey = rnd (10 * i + 8) * pi,
                             ez = rnd (10 * i + 9) * pi\<rparr>
                       else \<lparr>ex = 0, ey = t * 0.1 * speed, ez = 0\<rparr>)
                \<and> obj_scale m = (if ty = light then 1 + 0.2 * sin (5 * t + real i) else 1))"
proof -
  let ?init = "Ornaments_init rnd ty n"
  from Ornaments_frames_result [OF ornamentsWf_init, of fs rnd ty n] obtain s where
    s: "Ornaments_frames fs ?init = Inr s" and wf: "ornamentsWf s" and same: "ornamentsSame ?init s"
    by blast
  have f: "meshRef s" "orn_type s = ty" "orn_count s = n"
    "chaosData s ! i = ornament_chaos rnd i"
    "targetData s ! i = ornament_target rnd ty i"
    "speeds s ! i = ornament_speed rnd i"
    "initialRotations s ! i = ornament_rotation rnd i"
    using same assms(2) by (simp_all add: ornamentsSame_def Ornaments_init_fields)
  from Ornaments_useFrame_result [OF wf, of ts t dt] f(1,3) assms(2) obtain s' where
    s': "Ornaments_useFrame ts t dt s = Inr s'"
    and m: "instanceMatrix s' ! i = ornamentTransform ts t dt i s"
    and c: "currentPositions s' ! i = obj_position (ornamentTransform ts t dt i s)"
    by blast
  have sp: "1 \<le> ornament_speed rnd i \<and> ornament_speed rnd i < 3"
    "ornament_speed rnd i = 1 + rnd (10 * i + 6) * 2"
    using assms(1) [rule_format, of "10 * i + 6"] by (simp_all add: ornament_speed_def)
  have "let speed = speeds s ! i;
            target = (if ts = FORMED then targetData s ! i else chaosData s ! i);
            cur = currentPositions s ! i;
            cur' = currentPositions s' ! i;
            m = instanceMatrix s' ! i
        in speed = 1 + rnd (10 * i + 6) * 2 \<and> 1 \<le> speed \<and> speed < 3
         \<and> target = (if ts = FORMED then ornament_target rnd ty i else ornament_chaos rnd i)
         \<and> vx cur' = vx cur + (vx target - vx cur) * (speed * dt)
         \<and> vy cur' = vy cur + (vy target - vy cur) * (speed * dt)
         \<and> vz cur' = vz cur + (vz target - vz cur) * (speed * dt)
         \<and> obj_position m = cur'
         \<and> obj_rotation m
             = (if ty = box
                then \<lparr>ex = rnd (10 * i + 7) * pi, ey = rnd (10 * i + 8) * pi,
                      ez = rnd (10 * i + 9) * pi\<rparr>
                else \<lparr>ex = 0, ey = t * 0.1 * speed, ez = 0\<rparr>)
         \<and> obj_scale m = (if ty = light then 1 + 0.2 * sin (5 * t + real i) else 1)"
    unfolding Let_def m c using sp f
    by (simp add: ornamentTransform_def Vector3_lerp_def ornament_rotation_def)
  then show ?thesis using s s' by blast
qed

theorem ornaments_frame_witness:
  "(\<forall>k. 0 \<le> exampleDraws k \<and> exampleDraws k < 1)
   \<and> (1::nat) < 2
   \<and> (\<exists>s'. Ornaments_useFrame FORMED 0 (1 / 60) (Ornaments_init exampleDraws light 2) = Inr s'
         \<and> vy (currentPositions (Ornaments_init exampleDraws light 2) ! 1) = 0
         \<and> vy (targetData (Ornaments_init exampleDraws light 2) ! 1) = - 7
         \<and> speeds (Ornaments_init exampleDraws light 2) ! 1 = 2
         \<and> vy (currentPositions s' ! 1) = - (7 / 30)
         \<and> vy (obj_position (instanceMatrix s' ! 1)) = - (7 / 30)
         \<and> obj_rotation (instanceMatrix s' ! 1) = \<lparr>ex = 0, ey = 0, ez = 0\<rparr>
         \<and> obj_scale (instanceMatrix s' ! 1) = 1 + 0.2 * sin 1)"
proof -
  let ?init = "Ornaments_init exampleDraws light 2"
  have h: "\<forall>k. 0 \<le> exampleDraws k \<and> exampleDraws k < 1" by (simp add: exampleDraws_def)
  have n: "(1::nat) < 2" by simp
  have cur: "vy (currentPositions ?init ! 1) = 0"
    by (simp add: Ornaments_init_fields ornament_chaos_def getRandomSpherePoint_def
        exampleDraws_def Let_def)
  have tgt: "vy (targetData ?init ! 1) = - 7"
    by (simp add: Ornaments_init_fields ornament_target_def getTreePoint_def
        Vector3_add_def Vector3_multiplyScalar_def Vector3_normalize_def
        exampleDraws_def Let_def)
  have spd: "speeds ?init ! 1 = 2"
    by (simp add: Ornaments_init_fields ornament_speed_def exampleDraws_def)
  from ornaments_frame [OF h n, of "[]" light FORMED 0 "1 / 60"] obtain s s' where
    s: "Ornaments_frames [] ?init = Inr s"
    and s': "Ornaments_useFrame FORMED 0 (1 / 60) s = Inr s'"
    and p: "let speed = speeds s ! 1;
                target = (if FORMED = FORMED then targetData s ! 1 else chaosData s ! 1);
                cur = currentPositions s ! 1;
                cur' = currentPositions s' ! 1;
                m = instanceMatrix s' ! 1
            in speed = 1 + exampleDraws (10 * 1 + 6) * 2 \<and> 1 \<le> speed \<and> speed < 3
             \<and> target = (if FORMED = FORMED then ornament_target exampleDraws light 1
                         else ornament_chaos exampleDraws 1)
             \<and> vx cur' = vx cur + (vx target - vx cur) * (speed * (1 / 60))
             \<and> vy cur' = vy cur + (vy target - vy cur) * (speed * (1 / 60))
             \<and> vz cur' = vz cur + (vz target - vz cur) * (speed * (1 / 60))
             \<and> obj_position m = cur'
             \<and> obj_rotation m
                 = (if light = box
                    then \<lparr>ex = exampleDraws (10 * 1 + 7) * pi, ey = exampleDraws (10 * 1 + 8) * pi,
                          ez = exampleDraws (10 * 1 + 9) * pi\<rparr>
                    else \<lparr>ex = 0, ey = 0 * 0.1 * speed, ez = 0\<rparr>)
             \<and> obj_scale m = (if light = light then 1 + 0.2 * sin (5 * 0 + real (1::nat)) else 1)"
    by blast
  have si: "s = ?init" using s by simp
  have y: "vy (currentPositions s' ! 1)
             = vy (currentPositions ?init ! 1)
               + (vy (targetData ?init ! 1) - vy (currentPositions ?init ! 1))
                 * (speeds ?init ! 1 * (1 / 60))"
    and m: "obj_position (instanceMatrix s' ! 1) = currentPositions s' ! 1"
    and r: "obj_rotation (instanceMatrix s' ! 1) = \<lparr>ex = 0, ey = 0, ez = 0\<rparr>"
    and c: "obj_scale (instanceMatrix s' ! 1) = 1 + 0.2 * sin 1"
    using p unfolding si Let_def by simp_all
  have y': "vy (currentPositions s' ! 1) = - (7 / 30)"
    unfolding y cur tgt spd by simp
  have "vy (currentPositions s' ! 1) = - (7 / 30)
      \<and> vy (obj_position (instanceMatrix s' ! 1)) = - (7 / 30)
      \<and> obj_rotation (instanceMatrix s' ! 1) = \<lparr>ex = 0, ey = 0, ez = 0\<rparr>
      \<and> obj_scale (instanceMatrix s' ! 1) = 1 + 0.2 * sin 1"
    using y' m r c by simp
  then show ?thesis using h n s' cur tgt spd unfolding si by blast
qed

section \<open>Float32 rounding\<close>










lemma two_powr_24: "(2::real) powr 24 = 16777216" and two_powr_23: "(2::real) powr 23 = 8388608"
  by simp_all














section \<open>Chaotic swarm: the orbit stays in its cube\<close>

lemma swarm_body_nth:
  fixes pos :: "real list"
  assumes "i * 3 + 2 < length pos" "k < 3"
  shows "pos[i * 3 := a, i * 3 + 1 := b, i * 3 + 2 := c] ! (j * 3 + k) =
           (if j = i then (if k = 0 then a else if k = 1 then b else c) else pos ! (j * 3 + k))"
proof (cases "j = i")
  case True
  have "k = 0 \<or> k = 1 \<or> k = 2" using assms(2) by arith
  then show ?thesis using True assms(1) by (auto simp: nth_list_update)
next
  case False
  then have "j * 3 + k \<noteq> i * 3" "j * 3 + k \<noteq> i * 3 + 1" "j * 3 + k \<noteq> i * 3 + 2"
    using assms(2) by arith+
  then show ?thesis using False by simp
qed

lemma ChaoticSwarm_loop_unfold:
  "i < swarm_count \<Longrightarrow> i < length par \<Longrightarrow>
     ChaoticSwarm_loop par t i pos =
       ChaoticSwarm_loop par t (i + 1)
         (pos[i * 3 := fround (swarmCoord (par ! i) t 0),
              i * 3 + 1 := fround (swarmCoord (par ! i) t 1),
              i * 3 + 2 := fround (swarmCoord (par ! i) t 2)])"
  by (subst ChaoticSwarm_loop.simps) (simp add: Let_def swarmCoord_def mult.assoc)

lemma ChaoticSwarm_loop_stop:
  "\<not> i < swarm_count \<Longrightarrow> ChaoticSwarm_loop par t i pos = Inr pos"
  by (subst ChaoticSwarm_loop.simps) simp

lemma ChaoticSwarm_loop_result:
  assumes "length par = swarm_count"
  shows "length pos = swarm_count * 3 \<Longrightarrow>
     \<exists>pos'. ChaoticSwarm_loop par t i pos = Inr pos' \<and> length pos' = length pos
        \<and> (\<forall>j<swarm_count. \<forall>k<3.
              pos' ! (j * 3 + k) =
                (if i \<le> j then fround (swarmCoord (par ! j) t k) else pos ! (j * 3 + k)))"
proof (induction "swarm_count - i" arbitrary: i pos)
  case 0
  then have "\<not> i < swarm_count" by simp
  then show ?case by (simp add: ChaoticSwarm_loop_stop)
next
  case (Suc n)
  then have lt: "i < swarm_count" and n: "n = swarm_count - (i + 1)" by simp_all
  have ltp: "i < length par" using lt assms by simp
  let ?pos' = "pos[i * 3 := fround (swarmCoord (par ! i) t 0),
              i * 3 + 1 := fround (swarmCoord (par ! i) t 1),
              i * 3 + 2 := fround (swarmCoord (par ! i) t 2)]"
  have len: "length ?pos' = swarm_count * 3" using Suc.prems by simp
  have inb: "i * 3 + 2 < length pos" using lt Suc.prems by simp
  from Suc.hyps(1) [OF n len] obtain r where
    r: "ChaoticSwarm_loop par t (i + 1) ?pos' = Inr r" "length r = length ?pos'"
    and rj: "\<forall>j<swarm_count. \<forall>k<3.
              r ! (j * 3 + k) =
                (if i + 1 \<le> j then fround (swarmCoord (par ! j) t k) else ?pos' ! (j * 3 + k))"
    by blast
  have each: "r ! (j * 3 + k) =
      (if i \<le> j then fround (swarmCoord (par ! j) t k) else pos ! (j * 3 + k))"
    if "j < swarm_count" "k < 3" for j k
  proof -
    have body: "?pos' ! (j * 3 + k) =
        (if j = i then fround (swarmCoord (par ! i) t k) else pos ! (j * 3 + k))"
    proof -
      have "k = 0 \<or> k = 1 \<or> k = 2" using that(2) by arith
      then show ?thesis
        unfolding swarm_body_nth [OF inb that(2)] by auto
    qed
    have "r ! (j * 3 + k) =
        (if i + 1 \<le> j then fround (swarmCoord (par ! j) t k) else ?pos' ! (j * 3 + k))"
      using rj that by blast
    moreover have "i + 1 \<le> j \<or> j = i \<or> j < i" by arith
    ultimately show ?thesis unfolding body by auto
  qed
  show ?case
    unfolding ChaoticSwarm_loop_unfold [OF lt ltp] using r each by simp
qed












section \<open>Scene: no callback throws and the scalars stay in bounds\<close>

lemma ChaoticSwarm_useFrame_wf:
  assumes "swarmWf s"
  shows "\<exists>s'. ChaoticSwarm_useFrame opacity t s = Inr s' \<and> swarmWf s'"
proof (cases "pointsRef s \<and> opacity > 0.01")
  case False
  then show ?thesis
    using assms by (auto simp: ChaoticSwarm_useFrame_def Let_def swarmWf_def)
next
  case True
  have len: "length (positions s) = swarm_count * 3" and lenp: "length (params s) = swarm_count"
    using assms by (simp_all add: swarmWf_def)
  from ChaoticSwarm_loop_result [OF lenp len, of t 0] obtain pos where
    pos: "ChaoticSwarm_loop (params s) t 0 (positions s) = Inr pos"
      "length pos = length (positions s)"
    by auto
  let ?s' = "s\<lparr>points_opacity := opacity, points_visible := (opacity > 0.01), positions := pos\<rparr>"
  have run: "ChaoticSwarm_useFrame opacity t s = Inr ?s'"
    using True pos(1) by (simp add: ChaoticSwarm_useFrame_def Let_def)
  have "swarmWf ?s'" using len lenp pos(2) by (simp add: swarmWf_def)
  then show ?thesis using run by blast
qed

lemma Canvas_step_ok:
  assumes "instancesWf b"
  shows "\<exists>b'. Canvas_step e (sc, b) = Inr (Scene_step e sc, b') \<and> instancesWf b'"
proof (cases e)
  case ToggleSignal
  then show ?thesis using assms by simp
next
  case (Tick delta)
  let ?t = "elapsedTime sc + delta"
  have wf: "ornamentsWf (boxes b)" "ornamentsWf (balls b)" "ornamentsWf (lights b)"
    "swarmWf (swarm b)"
    using assms by (simp_all add: instancesWf_def)
  from Ornaments_useFrame_result [OF wf(1), of "signal sc" ?t delta] obtain bx where
    bx: "Ornaments_useFrame (signal sc) ?t delta (boxes b) = Inr bx" "ornamentsWf bx" by blast
  from Ornaments_useFrame_result [OF wf(2), of "signal sc" ?t delta] obtain bl where
    bl: "Ornaments_useFrame (signal sc) ?t delta (balls b) = Inr bl" "ornamentsWf bl" by blast
  from Ornaments_useFrame_result [OF wf(3), of "signal sc" ?t delta] obtain lt where
    lt: "Ornaments_useFrame (signal sc) ?t delta (lights b) = Inr lt" "ornamentsWf lt" by blast
  from ChaoticSwarm_useFrame_wf [OF wf(4), of "swarm_opacity (star sc)" ?t] obtain sw where
    sw: "ChaoticSwarm_useFrame (swarm_opacity (star sc)) ?t (swarm b) = Inr sw" "swarmWf sw"
    by blast
  let ?b' = "\<lparr>boxes = bx, balls = bl, lights = lt, swarm = sw\<rparr>"
  have "Canvas_step (Tick delta) (sc, b) = Inr (Scene_step (Tick delta) sc, ?b')"
    unfolding Canvas_step.simps Let_def bx(1) bl(1) lt(1) sw(1) by simp
  moreover have "instancesWf ?b'"
    using bx(2) bl(2) lt(2) sw(2) by (simp add: instancesWf_def)
  ultimately show ?thesis unfolding Tick by blast
qed

lemma Canvas_run_ok:
  "instancesWf b \<Longrightarrow>
     \<exists>b'. Canvas_run es (sc, b) = Inr (Scene_run es sc, b') \<and> instancesWf b'"
proof (induction es arbitrary: sc b)
  case Nil
  then show ?case by simp
next
  case (Cons e es)
  from Canvas_step_ok [OF Cons.prems, of e sc] obtain b1 where
    b1: "Canvas_step e (sc, b) = Inr (Scene_step e sc, b1)" "instancesWf b1" by blast
  from Cons.IH [OF b1(2), of "Scene_step e sc"] obtain b' where
    b': "Canvas_run es (Scene_step e sc, b1) = Inr (Scene_run es (Scene_step e sc), b')"
      "instancesWf b'" by blast
  have "Canvas_run (e # es) (sc, b) = Inr (Scene_run (e # es) sc, b')"
    unfolding Canvas_run.simps b1(1) using b'(1) by (simp del: Scene_step.simps)
  then show ?case using b'(2) by blast
qed

lemma instancesWf_init: "instancesWf (Instances_init rB rL rG rS)"
  by (simp add: instancesWf_def Instances_init_def ornamentsWf_init swarmWf_def
      ChaoticSwarm_init_def)

lemma Scene_step_star:
  "inUnit (star_progress (star sc)) \<Longrightarrow> inUnit (star_progress (star (Scene_step e sc)))"
proof (cases e)
  case ToggleSignal
  assume "inUnit (star_progress (star sc))"
  then show ?thesis unfolding ToggleSignal by (simp add: Scene_step_fields del: Scene_step.simps)
next
  case (Tick dt)
  assume "inUnit (star_progress (star sc))"
  then have b: "0 \<le> star_progress (star sc)" "star_progress (star sc) \<le> 1"
    by (simp_all add: inUnit_def)
  show ?thesis
    unfolding Tick Scene_step_fields inUnit_def
    by (rule Star_useFrame_progress_bounds [OF b])
qed

lemma Scene_step_focus:
  assumes "inUnit (progress (frame sc))" and "deltaNonneg e"
  shows "inUnit (progress (frame (Scene_step e sc)))"
proof (cases e)
  case ToggleSignal
  then show ?thesis using assms(1) by (simp add: Scene_step_fields del: Scene_step.simps)
next
  case (Tick dt)
  then have dt: "0 \<le> dt" using assms(2) by simp
  have b: "0 \<le> progress (frame sc)" "progress (frame sc) \<le> 1"
    using assms(1) by (simp_all add: inUnit_def)
  show ?thesis
    unfolding Tick Scene_step_fields inUnit_def
    by (rule PhotoFrame_progress_bounds [OF b dt])
qed

lemma Scene_step_foliage:
  assumes "inUnit (progressRef (foliage sc))" and "deltaWithin (2 / 5) e"
  shows "inUnit (progressRef (foliage (Scene_step e sc)))"
proof (cases e)
  case ToggleSignal
  then show ?thesis using assms(1) by (simp add: Scene_step_fields del: Scene_step.simps)
next
  case (Tick dt)
  then have f: "0 \<le> dt * 2.5" "dt * 2.5 \<le> 1" using assms(2) by simp_all
  have b: "0 \<le> progressRef (foliage sc)" "progressRef (foliage sc) \<le> 1"
    using assms(1) by (simp_all add: inUnit_def)
  show ?thesis
    unfolding Tick Scene_step_fields inUnit_def
    using b lerp_unit_interval [OF b _ _ f, of "if signal sc = FORMED then 1 else 0"]
    by (simp add: Foliage_useFrame_progressRef)
qed

lemma Scene_step_flip:
  assumes "inUnit (flipProgress (frame sc))" and "deltaWithin (1 / 2) e"
  shows "inUnit (flipProgress (frame (Scene_step e sc)))"
proof (cases e)
  case ToggleSignal
  then show ?thesis using assms(1) by (simp add: Scene_step_fields del: Scene_step.simps)
next
  case (Tick dt)
  then have f: "0 \<le> dt * 2.0" "dt * 2.0 \<le> 1" using assms(2) by simp_all
  have b: "0 \<le> flipProgress (frame sc)" "flipProgress (frame sc) \<le> 1"
    using assms(1) by (simp_all add: inUnit_def)
  show ?thesis
    unfolding Tick Scene_step_fields inUnit_def
    using b lerp_unit_interval [OF b _ _ f, of "if isFlipped (frame sc) then 1 else 0"]
    by (simp add: PhotoFrame_useFrame_flip)
qed

lemma Scene_step_unflipped:
  assumes "\<not> isFlipped (frame sc) \<and> flipProgress (frame sc) = 0"
  shows "\<not> isFlipped (frame (Scene_step e sc)) \<and> flipProgress (frame (Scene_step e sc)) = 0"
proof (cases e)
  case ToggleSignal
  then show ?thesis using assms by (simp add: Scene_step_fields del: Scene_step.simps)
next
  case (Tick dt)
  show ?thesis
    unfolding Tick Scene_step_fields
    using assms by (simp add: PhotoFrame_useFrame_flip PhotoFrame_useFrame_isFlipped lerp_def)
qed

lemma Scene_step_visibility:
  assumes "inUnit (visibilityScale (frame sc))" and "deltaWithin (1 / 3) e"
  shows "inUnit (visibilityScale (frame (Scene_step e sc)))"
proof (cases e)
  case ToggleSignal
  then show ?thesis using assms(1) by (simp add: Scene_step_fields del: Scene_step.simps)
next
  case (Tick dt)
  then have f: "0 \<le> dt * 3" "dt * 3 \<le> 1" using assms(2) by simp_all
  have b: "0 \<le> visibilityScale (frame sc)" "visibilityScale (frame sc) \<le> 1"
    using assms(1) by (simp_all add: inUnit_def)
  show ?thesis
    unfolding Tick Scene_step_fields inUnit_def
    using b lerp_unit_interval [OF b _ _ f, of 0]
    by (simp add: PhotoFrame_useFrame_visibilityScale)
qed

lemma Scene_step_unclearing:
  assumes "inUnit (visibilityScale (frame sc)) \<and> \<not> isClearing (frame sc)"
  shows "inUnit (visibilityScale (frame (Scene_step e sc)))
         \<and> \<not> isClearing (frame (Scene_step e sc))"
proof (cases e)
  case ToggleSignal
  then show ?thesis using assms by (simp add: Scene_step_fields del: Scene_step.simps)
next
  case (Tick dt)
  show ?thesis
    unfolding Tick Scene_step_fields
    using assms by (simp add: PhotoFrame_useFrame_visibilityScale inUnit_def)
qed

lemma Scene_run_star:
  "inUnit (star_progress (star sc)) \<Longrightarrow> inUnit (star_progress (star (Scene_run es sc)))"
  by (induction es arbitrary: sc) (simp_all add: Scene_step_star del: Scene_step.simps)

lemma Scene_run_focus:
  "inUnit (progress (frame sc)) \<Longrightarrow> list_all deltaNonneg es
     \<Longrightarrow> inUnit (progress (frame (Scene_run es sc)))"
  by (induction es arbitrary: sc) (simp_all add: Scene_step_focus del: Scene_step.simps)

lemma Scene_run_foliage:
  "inUnit (progressRef (foliage sc)) \<Longrightarrow> list_all (deltaWithin (2 / 5)) es
     \<Longrightarrow> inUnit (progressRef (foliage (Scene_run es sc)))"
  by (induction es arbitrary: sc) (simp_all add: Scene_step_foliage del: Scene_step.simps)

lemma Scene_run_flip:
  "inUnit (flipProgress (frame sc)) \<Longrightarrow> list_all (deltaWithin (1 / 2)) es
     \<Longrightarrow> inUnit (flipProgress (frame (Scene_run es sc)))"
  by (induction es arbitrary: sc) (simp_all add: Scene_step_flip del: Scene_step.simps)

lemma Scene_run_unflipped:
  "\<not> isFlipped (frame sc) \<and> flipProgress (frame sc) = 0
     \<Longrightarrow> \<not> isFlipped (frame (Scene_run es sc)) \<and> flipProgress (frame (Scene_run es sc)) = 0"
proof (induction es arbitrary: sc)
  case Nil
  then show ?case by simp
next
  case (Cons e es)
  from Scene_step_unflipped [OF Cons.prems, of e]
  have "\<not> isFlipped (frame (Scene_run es (Scene_step e sc)))
        \<and> flipProgress (frame (Scene_run es (Scene_step e sc))) = 0"
    by (rule Cons.IH)
  then show ?case by (simp del: Scene_step.simps)
qed

lemma Scene_run_visibility:
  "inUnit (visibilityScale (frame sc)) \<Longrightarrow> list_all (deltaWithin (1 / 3)) es
     \<Longrightarrow> inUnit (visibilityScale (frame (Scene_run es sc)))"
  by (induction es arbitrary: sc) (simp_all add: Scene_step_visibility del: Scene_step.simps)

lemma Scene_run_unclearing:
  "inUnit (visibilityScale (frame sc)) \<and> \<not> isClearing (frame sc)
     \<Longrightarrow> inUnit (visibilityScale (frame (Scene_run es sc)))
         \<and> \<not> isClearing (frame (Scene_run es sc))"
proof (induction es arbitrary: sc)
  case Nil
  then show ?case by simp
next
  case (Cons e es)
  from Scene_step_unclearing [OF Cons.prems, of e]
  have "inUnit (visibilityScale (frame (Scene_run es (Scene_step e sc))))
        \<and> \<not> isClearing (frame (Scene_run es (Scene_step e sc)))"
    by (rule Cons.IH)
  then show ?case by (simp del: Scene_step.simps)
qed

text \<open>
  C6 (amended). For every sequence of Global Assembly Signal toggles and per-frame ticks with
  non-negative deltas (a CHAOS to FORMED to CHAOS flip within two ticks included), started
  with the arrays of the ornament batches and of the swarm at full length, and after every
  event of the sequence: no per-frame callback has thrown (the canvas run returns a state,
  whose scene part is that of the scene run); the star progress and the photo focus progress
  are within [0,1] if they started there; the foliage field progress is within [0,1] if it
  started there and every delta is at most 0.4 second (lerp factor 2.5 * delta at most 1); the
  flip progress is within [0,1] if it started there and every delta is at most 0.5 second
  (factor 2 * delta), or if the frame started unflipped with flip progress 0; the visibility
  scale is within [0,1] if it started there and every delta is at most 1/3 second (factor
  3 * delta), or no clearing is active.
\<close>

theorem progress_scalars_bounded:
  assumes "list_all deltaNonneg es" and "instancesWf b"
  shows "(\<exists>b'. Canvas_run (take k es) (sc, b) = Inr (Scene_run (take k es) sc, b')
            \<and> instancesWf b')
       \<and> (inUnit (star_progress (star sc))
            \<longrightarrow> inUnit (star_progress (star (Scene_run (take k es) sc))))
       \<and> (inUnit (progress (frame sc))
            \<longrightarrow> inUnit (progress (frame (Scene_run (take k es) sc))))
       \<and> (inUnit (progressRef (foliage sc)) \<and> list_all (deltaWithin (2 / 5)) es
            \<longrightarrow> inUnit (progressRef (foliage (Scene_run (take k es) sc))))
       \<and> (inUnit (flipProgress (frame sc))
            \<and> (list_all (deltaWithin (1 / 2)) es
                \<or> \<not> isFlipped (frame sc) \<and> flipProgress (frame sc) = 0)
            \<longrightarrow> inUnit (flipProgress (frame (Scene_run (take k es) sc))))
       \<and> (inUnit (visibilityScale (frame sc))
            \<and> (list_all (deltaWithin (1 / 3)) es \<or> \<not> isClearing (frame sc))
            \<longrightarrow> inUnit (visibilityScale (frame (Scene_run (take k es) sc))))"
proof (intro conjI impI)
  show "\<exists>b'. Canvas_run (take k es) (sc, b) = Inr (Scene_run (take k es) sc, b')
          \<and> instancesWf b'"
    using assms(2) by (rule Canvas_run_ok)
next
  assume "inUnit (star_progress (star sc))"
  then show "inUnit (star_progress (star (Scene_run (take k es) sc)))"
    by (rule Scene_run_star)
next
  assume "inUnit (progress (frame sc))"
  then show "inUnit (progress (frame (Scene_run (take k es) sc)))"
    using list_all_take [OF assms(1)] by (rule Scene_run_focus)
next
  assume "inUnit (progressRef (foliage sc)) \<and> list_all (deltaWithin (2 / 5)) es"
  then show "inUnit (progressRef (foliage (Scene_run (take k es) sc)))"
    using list_all_take [of "deltaWithin (2 / 5)" es k] Scene_run_foliage by blast
next
  assume h: "inUnit (flipProgress (frame sc))
     \<and> (list_all (deltaWithin (1 / 2)) es \<or> \<not> isFlipped (frame sc) \<and> flipProgress (frame sc) = 0)"
  show "inUnit (flipProgress (frame (Scene_run (take k es) sc)))"
  proof (cases "list_all (deltaWithin (1 / 2)) es")
    case True
    then have "list_all (deltaWithin (1 / 2)) (take k es)" by (rule list_all_take)
    with h show ?thesis using Scene_run_flip by blast
  next
    case False
    then have "\<not> isFlipped (frame sc) \<and> flipProgress (frame sc) = 0" using h by blast
    then have "flipProgress (frame (Scene_run (take k es) sc)) = 0"
      using Scene_run_unflipped by blast
    then show ?thesis by (simp add: inUnit_def)
  qed
next
  assume h: "inUnit (visibilityScale (frame sc))
     \<and> (list_all (deltaWithin (1 / 3)) es \<or> \<not> isClearing (frame sc))"
  show "inUnit (visibilityScale (frame (Scene_run (take k es) sc)))"
  proof (cases "list_all (deltaWithin (1 / 3)) es")
    case True
    then have "list_all (deltaWithin (1 / 3)) (take k es)" by (rule list_all_take)
    with h show ?thesis using Scene_run_visibility by blast
  next
    case False
    then have "inUnit (visibilityScale (frame sc)) \<and> \<not> isClearing (frame sc)" using h by blast
    then show ?thesis using Scene_run_unclearing by blast
  qed
qed


lemma Scene_init_scalars:
  "inUnit (star_progress (star (Scene_init d)))"
  "inUnit (progress (frame (Scene_init d)))"
  "inUnit (progressRef (foliage (Scene_init d)))"
  "inUnit (flipProgress (frame (Scene_init d)))"
  "inUnit (visibilityScale (frame (Scene_init d)))"
  "\<not> isFlipped (frame (Scene_init d))"
  "flipProgress (frame (Scene_init d)) = 0"
  "\<not> isClearing (frame (Scene_init d))"
  by (simp_all add: inUnit_def Scene_init_def Foliage_init_def Star_init_def Star_render_def
      PhotoFrame_init_def)

theorem progress_scalars_bounded_witness:
  "list_all deltaNonneg [ToggleSignal, Tick (1 / 60), ToggleSignal, Tick (1 / 60)]
   \<and> list_all (deltaWithin (2 / 5)) [ToggleSignal, Tick (1 / 60), ToggleSignal, Tick (1 / 60)]
   \<and> list_all (deltaWithin (1 / 2)) [ToggleSignal, Tick (1 / 60), ToggleSignal, Tick (1 / 60)]
   \<and> list_all (deltaWithin (1 / 3)) [ToggleSignal, Tick (1 / 60), ToggleSignal, Tick (1 / 60)]
   \<and> instancesWf (Instances_init exampleDraws exampleDraws exampleDraws quarterDraws)
   \<and> inUnit (star_progress (star (Scene_init examplePhoto)))
   \<and> inUnit (progress (frame (Scene_init examplePhoto)))
   \<and> inUnit (progressRef (foliage (Scene_init examplePhoto)))
   \<and> inUnit (flipProgress (frame (Scene_init examplePhoto)))
   \<and> inUnit (visibilityScale (frame (Scene_init examplePhoto)))
   \<and> (\<exists>b'. Canvas_run [ToggleSignal, Tick (1 / 60), ToggleSignal, Tick (1 / 60)]
              (Scene_init examplePhoto,
               Instances_init exampleDraws exampleDraws exampleDraws quarterDraws)
            = Inr (Scene_run [ToggleSignal, Tick (1 / 60), ToggleSignal, Tick (1 / 60)]
                     (Scene_init examplePhoto), b'))
   \<and> inUnit (star_progress (star
        (Scene_run [ToggleSignal, Tick (1 / 60), ToggleSignal, Tick (1 / 60)]
           (Scene_init examplePhoto))))
   \<and> inUnit (progress (frame
        (Scene_run [ToggleSignal, Tick (1 / 60), ToggleSignal, Tick (1 / 60)]
           (Scene_init examplePhoto))))
   \<and> inUnit (progressRef (foliage
        (Scene_run [ToggleSignal, Tick (1 / 60), ToggleSignal, Tick (1 / 60)]
           (Scene_init examplePhoto))))
   \<and> inUnit (flipProgress (frame
        (Scene_run [ToggleSignal, Tick (1 / 60), ToggleSignal, Tick (1 / 60)]
           (Scene_init examplePhoto))))
   \<and> inUnit (visibilityScale (frame
        (Scene_run [ToggleSignal, Tick (1 / 60), ToggleSignal, Tick (1 / 60)]
           (Scene_init examplePhoto))))"
proof -
  let ?es = "[ToggleSignal, Tick (1 / 60), ToggleSignal, Tick (1 / 60)]"
  let ?sc = "Scene_init examplePhoto"
  let ?b = "Instances_init exampleDraws exampleDraws exampleDraws quarterDraws"
  have ev: "list_all deltaNonneg ?es" "list_all (deltaWithin (2 / 5)) ?es"
    "list_all (deltaWithin (1 / 2)) ?es" "list_all (deltaWithin (1 / 3)) ?es"
    by simp_all
  have wf: "instancesWf ?b" by (rule instancesWf_init)
  have t: "take 4 ?es = ?es" by simp
  note r = progress_scalars_bounded [OF ev(1) wf, of 4 ?sc, unfolded t]
  have 0: "\<exists>b'. Canvas_run ?es (?sc, ?b) = Inr (Scene_run ?es ?sc, b')"
    using r by blast
  have 1: "inUnit (star_progress (star (Scene_run ?es ?sc)))"
    using r Scene_init_scalars(1) by blast
  have 2: "inUnit (progress (frame (Scene_run ?es ?sc)))"
    using r Scene_init_scalars(2) by blast
  have 3: "inUnit (progressRef (foliage (Scene_run ?es ?sc)))"
    using r Scene_init_scalars(3) ev(2) by blast
  have 4: "inUnit (flipProgress (frame (Scene_run ?es ?sc)))"
    using r Scene_init_scalars(4) ev(3) by blast
  have 5: "inUnit (visibilityScale (frame (Scene_run ?es ?sc)))"
    using r Scene_init_scalars(5) ev(4) by blast
  show ?thesis
    using ev wf Scene_init_scalars(1-5) [of examplePhoto] 0 1 2 3 4 5 by blast
qed

end
